theory Spec2Isabelle
  imports Main "HOL-Library.Word"
begin

unbundle bit_operations_syntax

section \<open>Constants, flags and the processor state\<close>

text \<open>
  The emulator keeps every register in a JavaScript number and masks it after each
  arithmetic step. The registers are therefore modelled as \<open>int\<close>, with every mask of
  the source written out; the bitwise operators of the source act on values far inside
  the 32-bit range, where they agree with the bitwise operations on \<open>int\<close>.
\<close>

definition MEMORY_SIZE :: int where "MEMORY_SIZE = 0x10000"
definition DEFAULT_PROGRAM_LOAD_ADDRESS :: int where "DEFAULT_PROGRAM_LOAD_ADDRESS = 0x0200"
definition RESET_VECTOR_ADDRESS :: int where "RESET_VECTOR_ADDRESS = 0xFFFC"
definition STACK_BASE :: int where "STACK_BASE = 0x0100"

text \<open>The enum \<open>Flag\<close>: \<open>C = 1 << 0\<close> up to \<open>N = 1 << 7\<close>.\<close>

definition Flag_C :: int where "Flag_C = 1"
definition Flag_Z :: int where "Flag_Z = 2"
definition Flag_I :: int where "Flag_I = 4"
definition Flag_D :: int where "Flag_D = 8"
definition Flag_B :: int where "Flag_B = 16"
definition Flag_U :: int where "Flag_U = 32"
definition Flag_V :: int where "Flag_V = 64"
definition Flag_N :: int where "Flag_N = 128"

record CPUState =
  A :: int
  X :: int
  Y :: int
  PC :: int
  SP :: int
  P :: int
  cycles :: int
  halted :: bool

section \<open>Memory\<close>

text \<open>
  Memory is a \<open>Uint8Array\<close> of \<open>MEMORY_SIZE\<close> cells. A typed array holds bytes, so a
  cell is an \<open>8 word\<close>; a store converts its value modulo 256 and is dropped when the
  index is outside the array; indexing outside the array yields \<open>undefined\<close>, which is
  \<open>None\<close> in \<open>mem_index\<close>. Only the indices \<open>0 .. 0xFFFF\<close> of the function are cells.
\<close>

type_synonym memory = "int \<Rightarrow> 8 word"

definition in_memory :: "int \<Rightarrow> bool" where
  "in_memory i \<longleftrightarrow> 0 \<le> i \<and> i < MEMORY_SIZE"

definition mem_index :: "memory \<Rightarrow> int \<Rightarrow> int option" where
  "mem_index memory i = (if in_memory i then Some (uint (memory i)) else None)"

text \<open>
  \<open>mem_read\<close> is the read \<open>memory[i]\<close> at the places where the source uses the byte as
  a number at once. Every index the engine forms there lies inside the array when the
  registers are in range (lemmas \<open>addressing_in_memory\<close> and \<open>stack_in_memory\<close> below);
  the one read that can leave the array, that of \<open>genericBranch\<close>, goes through
  \<open>mem_index\<close>.
\<close>

definition mem_read :: "memory \<Rightarrow> int \<Rightarrow> int" where
  "mem_read memory i = uint (memory i)"

definition mem_write :: "memory \<Rightarrow> int \<Rightarrow> int \<Rightarrow> memory" where
  "mem_write memory i v = (if in_memory i then memory(i := word_of_int v) else memory)"

section \<open>Addressing modes\<close>

record AddressingResult =
  address :: int
  pageCrossed :: "bool option"

type_synonym AddressingModeFunc = "CPUState \<Rightarrow> memory \<Rightarrow> AddressingResult \<times> CPUState"

definition fetchByte :: "CPUState \<Rightarrow> memory \<Rightarrow> int \<times> CPUState" where
  "fetchByte cpu memory =
     (let byte = mem_read memory (PC cpu);
          cpu = cpu\<lparr>PC := (PC cpu + 1) AND 0xFFFF\<rparr>
      in (byte, cpu))"

definition fetchWord :: "CPUState \<Rightarrow> memory \<Rightarrow> int \<times> CPUState" where
  "fetchWord cpu memory =
     (let (lowByte, cpu) = fetchByte cpu memory;
          (highByte, cpu) = fetchByte cpu memory
      in (push_bit 8 highByte OR lowByte, cpu))"

definition IMM :: AddressingModeFunc where
  "IMM cpu memory =
     (let addr = PC cpu;
          cpu = cpu\<lparr>PC := (PC cpu + 1) AND 0xFFFF\<rparr>
      in (\<lparr>address = addr, pageCrossed = None\<rparr>, cpu))"

definition ZP :: AddressingModeFunc where
  "ZP cpu memory =
     (let (b, cpu) = fetchByte cpu memory
      in (\<lparr>address = b, pageCrossed = None\<rparr>, cpu))"

definition ZPX :: AddressingModeFunc where
  "ZPX cpu memory =
     (let (b, cpu) = fetchByte cpu memory
      in (\<lparr>address = (b + X cpu) AND 0xFF, pageCrossed = None\<rparr>, cpu))"

definition ZPY :: AddressingModeFunc where
  "ZPY cpu memory =
     (let (b, cpu) = fetchByte cpu memory
      in (\<lparr>address = (b + Y cpu) AND 0xFF, pageCrossed = None\<rparr>, cpu))"

definition ABS :: AddressingModeFunc where
  "ABS cpu memory =
     (let (w, cpu) = fetchWord cpu memory
      in (\<lparr>address = w, pageCrossed = None\<rparr>, cpu))"

definition ABSX :: AddressingModeFunc where
  "ABSX cpu memory =
     (let (baseAddress, cpu) = fetchWord cpu memory;
          effectiveAddress = (baseAddress + X cpu) AND 0xFFFF;
          crossed = (baseAddress AND 0xFF00 \<noteq> effectiveAddress AND 0xFF00)
      in (\<lparr>address = effectiveAddress, pageCrossed = Some crossed\<rparr>, cpu))"

definition ABSY :: AddressingModeFunc where
  "ABSY cpu memory =
     (let (baseAddress, cpu) = fetchWord cpu memory;
          effectiveAddress = (baseAddress + Y cpu) AND 0xFFFF;
          crossed = (baseAddress AND 0xFF00 \<noteq> effectiveAddress AND 0xFF00)
      in (\<lparr>address = effectiveAddress, pageCrossed = Some crossed\<rparr>, cpu))"

text \<open>
  The indirect mode reproduces the page-wrap defect of the hardware: a pointer whose low
  byte is \<open>0xFF\<close> takes its high byte from the start of the same page.
\<close>

definition IND :: AddressingModeFunc where
  "IND cpu memory =
     (let (pointer, cpu) = fetchWord cpu memory;
          effectiveAddress =
            (if pointer AND 0x00FF = 0x00FF
             then mem_read memory pointer OR push_bit 8 (mem_read memory (pointer AND 0xFF00))
             else mem_read memory pointer OR push_bit 8 (mem_read memory (pointer + 1)))
      in (\<lparr>address = effectiveAddress, pageCrossed = None\<rparr>, cpu))"

definition IZX :: AddressingModeFunc where
  "IZX cpu memory =
     (let (b, cpu) = fetchByte cpu memory;
          zpAddress = (b + X cpu) AND 0xFF;
          lowByte = mem_read memory zpAddress;
          highByte = mem_read memory ((zpAddress + 1) AND 0xFF)
      in (\<lparr>address = push_bit 8 highByte OR lowByte, pageCrossed = None\<rparr>, cpu))"

definition IZY :: AddressingModeFunc where
  "IZY cpu memory =
     (let (zpAddress, cpu) = fetchByte cpu memory;
          baseAddress = mem_read memory zpAddress
                        OR push_bit 8 (mem_read memory ((zpAddress + 1) AND 0xFF));
          effectiveAddress = (baseAddress + Y cpu) AND 0xFFFF;
          crossed = (baseAddress AND 0xFF00 \<noteq> effectiveAddress AND 0xFF00)
      in (\<lparr>address = effectiveAddress, pageCrossed = Some crossed\<rparr>, cpu))"

text \<open>The relative mode returns the operand byte read as a signed offset, not an address.\<close>

definition REL :: AddressingModeFunc where
  "REL cpu memory =
     (let (offset, cpu) = fetchByte cpu memory
      in (\<lparr>address = (if offset > 127 then offset - 256 else offset), pageCrossed = None\<rparr>, cpu))"

text \<open>
  The table and the disassembler refer to the mode functions by identity (\<open>AM.IMM\<close>,
  \<open>null\<close> for \<open>AM.IMP\<close>); the tags below stand for these references.
\<close>

datatype AddressingMode =
  AM_IMM | AM_ZP | AM_ZPX | AM_ZPY | AM_ABS | AM_ABSX | AM_ABSY | AM_IND | AM_IZX | AM_IZY | AM_REL

fun addressingModeFunc :: "AddressingMode \<Rightarrow> AddressingModeFunc" where
  "addressingModeFunc AM_IMM = IMM"
| "addressingModeFunc AM_ZP = ZP"
| "addressingModeFunc AM_ZPX = ZPX"
| "addressingModeFunc AM_ZPY = ZPY"
| "addressingModeFunc AM_ABS = ABS"
| "addressingModeFunc AM_ABSX = ABSX"
| "addressingModeFunc AM_ABSY = ABSY"
| "addressingModeFunc AM_IND = IND"
| "addressingModeFunc AM_IZX = IZX"
| "addressingModeFunc AM_IZY = IZY"
| "addressingModeFunc AM_REL = REL"

section \<open>Effect functions\<close>

text \<open>
  An effect function mutates the processor state and the memory it is given; the model
  returns both. No effect function of the source declares the fourth parameter
  \<open>pageCrossed\<close> of its type, so the model's type has three.
\<close>

type_synonym ExecuteFunc = "CPUState \<Rightarrow> memory \<Rightarrow> int \<Rightarrow> CPUState \<times> memory"

definition setZN :: "CPUState \<Rightarrow> int \<Rightarrow> CPUState" where
  "setZN cpu v =
     (let cpu = cpu\<lparr>P := (if v = 0 then P cpu OR Flag_Z else P cpu AND NOT Flag_Z)\<rparr>;
          cpu = cpu\<lparr>P := (if v AND 0x80 \<noteq> 0 then P cpu OR Flag_N else P cpu AND NOT Flag_N)\<rparr>
      in cpu)"

definition setZNC :: "CPUState \<Rightarrow> int \<Rightarrow> bool \<Rightarrow> CPUState" where
  "setZNC cpu v carry =
     (let cpu = setZN cpu v;
          cpu = cpu\<lparr>P := (if carry then P cpu OR Flag_C else P cpu AND NOT Flag_C)\<rparr>
      in cpu)"

definition pushByte :: "CPUState \<Rightarrow> memory \<Rightarrow> int \<Rightarrow> CPUState \<times> memory" where
  "pushByte cpu memory v =
     (let memory = mem_write memory (STACK_BASE + SP cpu) v;
          cpu = cpu\<lparr>SP := (SP cpu - 1) AND 0xFF\<rparr>
      in (cpu, memory))"

definition pullByte :: "CPUState \<Rightarrow> memory \<Rightarrow> int \<times> CPUState" where
  "pullByte cpu memory =
     (let cpu = cpu\<lparr>SP := (SP cpu + 1) AND 0xFF\<rparr>
      in (mem_read memory (STACK_BASE + SP cpu), cpu))"

definition pushWord :: "CPUState \<Rightarrow> memory \<Rightarrow> int \<Rightarrow> CPUState \<times> memory" where
  "pushWord cpu memory v =
     (let (cpu, memory) = pushByte cpu memory (drop_bit 8 v AND 0xFF);
          (cpu, memory) = pushByte cpu memory (v AND 0xFF)
      in (cpu, memory))"

definition pullWord :: "CPUState \<Rightarrow> memory \<Rightarrow> int \<times> CPUState" where
  "pullWord cpu memory =
     (let (lowByte, cpu) = pullByte cpu memory;
          (highByte, cpu) = pullByte cpu memory
      in (push_bit 8 highByte OR lowByte, cpu))"

definition LDA :: ExecuteFunc where
  "LDA cpu memory addr =
     (let cpu = cpu\<lparr>A := mem_read memory addr\<rparr>; cpu = setZN cpu (A cpu) in (cpu, memory))"

definition LDX :: ExecuteFunc where
  "LDX cpu memory addr =
     (let cpu = cpu\<lparr>X := mem_read memory addr\<rparr>; cpu = setZN cpu (X cpu) in (cpu, memory))"

definition LDY :: ExecuteFunc where
  "LDY cpu memory addr =
     (let cpu = cpu\<lparr>Y := mem_read memory addr\<rparr>; cpu = setZN cpu (Y cpu) in (cpu, memory))"

definition STA :: ExecuteFunc where
  "STA cpu memory addr = (cpu, mem_write memory addr (A cpu))"

definition STX :: ExecuteFunc where
  "STX cpu memory addr = (cpu, mem_write memory addr (X cpu))"

definition STY :: ExecuteFunc where
  "STY cpu memory addr = (cpu, mem_write memory addr (Y cpu))"

definition ADC :: ExecuteFunc where
  "ADC cpu memory addr =
     (let v = mem_read memory addr;
          carry = (if P cpu AND Flag_C \<noteq> 0 then 1 else 0);
          temp = A cpu + v + carry;
          cpu = (if \<not> ((A cpu XOR v) AND 0x80 \<noteq> 0) \<and> (A cpu XOR temp) AND 0x80 \<noteq> 0
                 then cpu\<lparr>P := P cpu OR Flag_V\<rparr>
                 else cpu\<lparr>P := P cpu AND NOT Flag_V\<rparr>);
          cpu = cpu\<lparr>A := temp AND 0xFF\<rparr>;
          cpu = setZNC cpu (A cpu) (temp > 0xFF)
      in (cpu, memory))"

definition SBC :: ExecuteFunc where
  "SBC cpu memory addr =
     (let v = mem_read memory addr XOR 0xFF;
          carry = (if P cpu AND Flag_C \<noteq> 0 then 1 else 0);
          temp = A cpu + v + carry;
          cpu = (if \<not> ((A cpu XOR v) AND 0x80 \<noteq> 0) \<and> (A cpu XOR temp) AND 0x80 \<noteq> 0
                 then cpu\<lparr>P := P cpu OR Flag_V\<rparr>
                 else cpu\<lparr>P := P cpu AND NOT Flag_V\<rparr>);
          cpu = cpu\<lparr>A := temp AND 0xFF\<rparr>;
          cpu = setZNC cpu (A cpu) (temp > 0xFF)
      in (cpu, memory))"

text \<open>
  \<open>genericBranch\<close> receives, as its address argument, what the addressing mode returned,
  and indexes memory with it. The index can be negative; the read is then \<open>undefined\<close>,
  the sum \<open>cpu.PC + undefined\<close> is \<open>NaN\<close>, and \<open>NaN & 0xFFFF\<close> is 0.
\<close>

definition genericBranch :: "CPUState \<Rightarrow> memory \<Rightarrow> int \<Rightarrow> bool \<Rightarrow> CPUState \<times> memory" where
  "genericBranch cpu memory relativeOffsetAddress condition =
     (if condition then
        (let relativeOffset = mem_index memory relativeOffsetAddress;
             oldPC = PC cpu;
             cpu = cpu\<lparr>PC := (case relativeOffset of
                                  Some r \<Rightarrow> (PC cpu + r) AND 0xFFFF
                                | None \<Rightarrow> 0)\<rparr>;
             cpu = cpu\<lparr>cycles := cycles cpu + 1\<rparr>;
             cpu = (if oldPC AND 0xFF00 \<noteq> PC cpu AND 0xFF00
                    then cpu\<lparr>cycles := cycles cpu + 1\<rparr> else cpu)
         in (cpu, memory))
      else (cpu, memory))"

definition BEQ :: ExecuteFunc where
  "BEQ cpu memory addr = genericBranch cpu memory addr (P cpu AND Flag_Z \<noteq> 0)"
definition BNE :: ExecuteFunc where
  "BNE cpu memory addr = genericBranch cpu memory addr (P cpu AND Flag_Z = 0)"
definition BCS :: ExecuteFunc where
  "BCS cpu memory addr = genericBranch cpu memory addr (P cpu AND Flag_C \<noteq> 0)"
definition BCC :: ExecuteFunc where
  "BCC cpu memory addr = genericBranch cpu memory addr (P cpu AND Flag_C = 0)"
definition BMI :: ExecuteFunc where
  "BMI cpu memory addr = genericBranch cpu memory addr (P cpu AND Flag_N \<noteq> 0)"
definition BPL :: ExecuteFunc where
  "BPL cpu memory addr = genericBranch cpu memory addr (P cpu AND Flag_N = 0)"
definition BVS :: ExecuteFunc where
  "BVS cpu memory addr = genericBranch cpu memory addr (P cpu AND Flag_V \<noteq> 0)"
definition BVC :: ExecuteFunc where
  "BVC cpu memory addr = genericBranch cpu memory addr (P cpu AND Flag_V = 0)"

definition JMP :: ExecuteFunc where
  "JMP cpu memory addr = (cpu\<lparr>PC := addr\<rparr>, memory)"

definition JSR :: ExecuteFunc where
  "JSR cpu memory addr =
     (let (cpu, memory) = pushWord cpu memory ((PC cpu - 1) AND 0xFFFF);
          cpu = cpu\<lparr>PC := addr\<rparr>
      in (cpu, memory))"

definition RTS :: ExecuteFunc where
  "RTS cpu memory addr =
     (let (w, cpu) = pullWord cpu memory;
          cpu = cpu\<lparr>PC := (w + 1) AND 0xFFFF\<rparr>
      in (cpu, memory))"

definition RTI :: ExecuteFunc where
  "RTI cpu memory addr =
     (let (b, cpu) = pullByte cpu memory;
          cpu = cpu\<lparr>P := (b AND NOT Flag_B) OR Flag_U\<rparr>;
          (w, cpu) = pullWord cpu memory;
          cpu = cpu\<lparr>PC := w\<rparr>
      in (cpu, memory))"

definition INC :: ExecuteFunc where
  "INC cpu memory addr =
     (let v = (mem_read memory addr + 1) AND 0xFF;
          memory = mem_write memory addr v;
          cpu = setZN cpu v
      in (cpu, memory))"

definition INX :: ExecuteFunc where
  "INX cpu memory addr =
     (let cpu = cpu\<lparr>X := (X cpu + 1) AND 0xFF\<rparr>; cpu = setZN cpu (X cpu) in (cpu, memory))"

definition INY :: ExecuteFunc where
  "INY cpu memory addr =
     (let cpu = cpu\<lparr>Y := (Y cpu + 1) AND 0xFF\<rparr>; cpu = setZN cpu (Y cpu) in (cpu, memory))"

definition DEC :: ExecuteFunc where
  "DEC cpu memory addr =
     (let v = (mem_read memory addr - 1) AND 0xFF;
          memory = mem_write memory addr v;
          cpu = setZN cpu v
      in (cpu, memory))"

definition DEX :: ExecuteFunc where
  "DEX cpu memory addr =
     (let cpu = cpu\<lparr>X := (X cpu - 1) AND 0xFF\<rparr>; cpu = setZN cpu (X cpu) in (cpu, memory))"

definition DEY :: ExecuteFunc where
  "DEY cpu memory addr =
     (let cpu = cpu\<lparr>Y := (Y cpu - 1) AND 0xFF\<rparr>; cpu = setZN cpu (Y cpu) in (cpu, memory))"

definition CMP :: ExecuteFunc where
  "CMP cpu memory addr =
     (let v = mem_read memory addr;
          result = (A cpu - v) AND 0xFF;
          cpu = setZN cpu result;
          cpu = cpu\<lparr>P := (if A cpu \<ge> v then P cpu OR Flag_C else P cpu AND NOT Flag_C)\<rparr>
      in (cpu, memory))"

definition CPX :: ExecuteFunc where
  "CPX cpu memory addr =
     (let v = mem_read memory addr;
          result = (X cpu - v) AND 0xFF;
          cpu = setZN cpu result;
          cpu = cpu\<lparr>P := (if X cpu \<ge> v then P cpu OR Flag_C else P cpu AND NOT Flag_C)\<rparr>
      in (cpu, memory))"

definition CPY :: ExecuteFunc where
  "CPY cpu memory addr =
     (let v = mem_read memory addr;
          result = (Y cpu - v) AND 0xFF;
          cpu = setZN cpu result;
          cpu = cpu\<lparr>P := (if Y cpu \<ge> v then P cpu OR Flag_C else P cpu AND NOT Flag_C)\<rparr>
      in (cpu, memory))"

text \<open>The effect function \<open>AND\<close> of the source; \<open>AND\<close> itself is the bitwise operator here.\<close>

definition AND_A :: ExecuteFunc where
  "AND_A cpu memory addr =
     (let cpu = cpu\<lparr>A := A cpu AND mem_read memory addr\<rparr>; cpu = setZN cpu (A cpu)
      in (cpu, memory))"

definition ORA :: ExecuteFunc where
  "ORA cpu memory addr =
     (let cpu = cpu\<lparr>A := A cpu OR mem_read memory addr\<rparr>; cpu = setZN cpu (A cpu)
      in (cpu, memory))"

definition EOR :: ExecuteFunc where
  "EOR cpu memory addr =
     (let cpu = cpu\<lparr>A := A cpu XOR mem_read memory addr\<rparr>; cpu = setZN cpu (A cpu)
      in (cpu, memory))"

definition BIT :: ExecuteFunc where
  "BIT cpu memory addr =
     (let v = mem_read memory addr;
          cpu = cpu\<lparr>P := (if v AND A cpu = 0 then P cpu OR Flag_Z else P cpu AND NOT Flag_Z)\<rparr>;
          cpu = cpu\<lparr>P := (if v AND Flag_N \<noteq> 0 then P cpu OR Flag_N else P cpu AND NOT Flag_N)\<rparr>;
          cpu = cpu\<lparr>P := (if v AND Flag_V \<noteq> 0 then P cpu OR Flag_V else P cpu AND NOT Flag_V)\<rparr>
      in (cpu, memory))"

definition ASL_A :: ExecuteFunc where
  "ASL_A cpu memory addr =
     (let carry = (A cpu AND 0x80 \<noteq> 0);
          cpu = cpu\<lparr>A := push_bit 1 (A cpu) AND 0xFF\<rparr>;
          cpu = setZNC cpu (A cpu) carry
      in (cpu, memory))"

definition ASL_M :: ExecuteFunc where
  "ASL_M cpu memory addr =
     (let v = mem_read memory addr;
          carry = (v AND 0x80 \<noteq> 0);
          memory = mem_write memory addr (push_bit 1 v AND 0xFF);
          cpu = setZNC cpu (mem_read memory addr) carry
      in (cpu, memory))"

definition LSR_A :: ExecuteFunc where
  "LSR_A cpu memory addr =
     (let carry = (A cpu AND 0x01 \<noteq> 0);
          cpu = cpu\<lparr>A := drop_bit 1 (A cpu)\<rparr>;
          cpu = setZNC cpu (A cpu) carry
      in (cpu, memory))"

definition LSR_M :: ExecuteFunc where
  "LSR_M cpu memory addr =
     (let v = mem_read memory addr;
          carry = (v AND 0x01 \<noteq> 0);
          memory = mem_write memory addr (drop_bit 1 v);
          cpu = setZNC cpu (mem_read memory addr) carry
      in (cpu, memory))"

definition ROL_A :: ExecuteFunc where
  "ROL_A cpu memory addr =
     (let oldCarry = (if P cpu AND Flag_C \<noteq> 0 then 1 else 0);
          newCarry = (A cpu AND 0x80 \<noteq> 0);
          cpu = cpu\<lparr>A := (push_bit 1 (A cpu) OR oldCarry) AND 0xFF\<rparr>;
          cpu = setZNC cpu (A cpu) newCarry
      in (cpu, memory))"

definition ROL_M :: ExecuteFunc where
  "ROL_M cpu memory addr =
     (let v = mem_read memory addr;
          oldCarry = (if P cpu AND Flag_C \<noteq> 0 then 1 else 0);
          newCarry = (v AND 0x80 \<noteq> 0);
          memory = mem_write memory addr ((push_bit 1 v OR oldCarry) AND 0xFF);
          cpu = setZNC cpu (mem_read memory addr) newCarry
      in (cpu, memory))"

definition ROR_A :: ExecuteFunc where
  "ROR_A cpu memory addr =
     (let oldCarry = (if P cpu AND Flag_C \<noteq> 0 then 0x80 else 0);
          newCarry = (A cpu AND 0x01 \<noteq> 0);
          cpu = cpu\<lparr>A := drop_bit 1 (A cpu) OR oldCarry\<rparr>;
          cpu = setZNC cpu (A cpu) newCarry
      in (cpu, memory))"

definition ROR_M :: ExecuteFunc where
  "ROR_M cpu memory addr =
     (let v = mem_read memory addr;
          oldCarry = (if P cpu AND Flag_C \<noteq> 0 then 0x80 else 0);
          newCarry = (v AND 0x01 \<noteq> 0);
          memory = mem_write memory addr (drop_bit 1 v OR oldCarry);
          cpu = setZNC cpu (mem_read memory addr) newCarry
      in (cpu, memory))"

definition PHA :: ExecuteFunc where
  "PHA cpu memory addr = pushByte cpu memory (A cpu)"

definition PHP :: ExecuteFunc where
  "PHP cpu memory addr = pushByte cpu memory (P cpu OR Flag_B OR Flag_U)"

definition PLA :: ExecuteFunc where
  "PLA cpu memory addr =
     (let (b, cpu) = pullByte cpu memory;
          cpu = cpu\<lparr>A := b\<rparr>;
          cpu = setZN cpu (A cpu)
      in (cpu, memory))"

definition PLP :: ExecuteFunc where
  "PLP cpu memory addr =
     (let (b, cpu) = pullByte cpu memory;
          cpu = cpu\<lparr>P := (b AND NOT Flag_B) OR Flag_U\<rparr>
      in (cpu, memory))"

definition TAX :: ExecuteFunc where
  "TAX cpu memory addr = (let cpu = cpu\<lparr>X := A cpu\<rparr>; cpu = setZN cpu (X cpu) in (cpu, memory))"
definition TXA :: ExecuteFunc where
  "TXA cpu memory addr = (let cpu = cpu\<lparr>A := X cpu\<rparr>; cpu = setZN cpu (A cpu) in (cpu, memory))"
definition TAY :: ExecuteFunc where
  "TAY cpu memory addr = (let cpu = cpu\<lparr>Y := A cpu\<rparr>; cpu = setZN cpu (Y cpu) in (cpu, memory))"
definition TYA :: ExecuteFunc where
  "TYA cpu memory addr = (let cpu = cpu\<lparr>A := Y cpu\<rparr>; cpu = setZN cpu (A cpu) in (cpu, memory))"
definition TSX :: ExecuteFunc where
  "TSX cpu memory addr = (let cpu = cpu\<lparr>X := SP cpu\<rparr>; cpu = setZN cpu (X cpu) in (cpu, memory))"
definition TXS :: ExecuteFunc where
  "TXS cpu memory addr = (cpu\<lparr>SP := X cpu\<rparr>, memory)"

definition CLC :: ExecuteFunc where
  "CLC cpu memory addr = (cpu\<lparr>P := P cpu AND NOT Flag_C\<rparr>, memory)"
definition SEC :: ExecuteFunc where
  "SEC cpu memory addr = (cpu\<lparr>P := P cpu OR Flag_C\<rparr>, memory)"
definition CLI :: ExecuteFunc where
  "CLI cpu memory addr = (cpu\<lparr>P := P cpu AND NOT Flag_I\<rparr>, memory)"
definition SEI :: ExecuteFunc where
  "SEI cpu memory addr = (cpu\<lparr>P := P cpu OR Flag_I\<rparr>, memory)"
definition CLD :: ExecuteFunc where
  "CLD cpu memory addr = (cpu\<lparr>P := P cpu AND NOT Flag_D\<rparr>, memory)"
definition SED :: ExecuteFunc where
  "SED cpu memory addr = (cpu\<lparr>P := P cpu OR Flag_D\<rparr>, memory)"
definition CLV :: ExecuteFunc where
  "CLV cpu memory addr = (cpu\<lparr>P := P cpu AND NOT Flag_V\<rparr>, memory)"

definition NOP :: ExecuteFunc where
  "NOP cpu memory addr = (cpu, memory)"

text \<open>
  The software break consumes its padding byte, pushes the program counter and the
  status, sets Interrupt-Disable and halts; no vector is loaded.
\<close>

definition BRK :: ExecuteFunc where
  "BRK cpu memory addr =
     (let (b, cpu) = fetchByte cpu memory;
          (cpu, memory) = pushWord cpu memory (PC cpu);
          (cpu, memory) = pushByte cpu memory (P cpu OR Flag_B OR Flag_U);
          cpu = cpu\<lparr>P := P cpu OR Flag_I\<rparr>;
          cpu = cpu\<lparr>halted := True\<rparr>
      in (cpu, memory))"

section \<open>The instruction table\<close>

record InstructionDefinition =
  mnemonic :: string
  opCode :: int
  addressingMode :: "AddressingMode option"
  execute :: ExecuteFunc
  bytes :: int
  baseCycles :: int
  pageCrossCycle :: bool
  branchCycle :: bool

text \<open>
  \<open>define_entry\<close> builds the descriptor of one call of \<open>define\<close>; \<open>definitions\<close> lists these calls in the
  order of the source, with the two defaulted flags written out. \<open>instructionSet\<close> is
  the \<open>Map\<close> these calls fill, a later \<open>set\<close> of a key replacing an earlier one.
\<close>

definition define_entry ::
  "int \<Rightarrow> string \<Rightarrow> AddressingMode option \<Rightarrow> ExecuteFunc \<Rightarrow> int \<Rightarrow> int \<Rightarrow> bool \<Rightarrow> bool
     \<Rightarrow> InstructionDefinition" where
  "define_entry oc mn am ex b bc pcc brc =
     \<lparr>mnemonic = mn, opCode = oc, addressingMode = am, execute = ex, bytes = b,
      baseCycles = bc, pageCrossCycle = pcc, branchCycle = brc\<rparr>"

definition definitions :: "InstructionDefinition list" where
  "definitions =
  [define_entry 0xA9 ''LDA'' (Some AM_IMM) LDA 2 2 False False,
   define_entry 0xA5 ''LDA'' (Some AM_ZP) LDA 2 3 False False,
   define_entry 0xB5 ''LDA'' (Some AM_ZPX) LDA 2 4 False False,
   define_entry 0xAD ''LDA'' (Some AM_ABS) LDA 3 4 False False,
   define_entry 0xBD ''LDA'' (Some AM_ABSX) LDA 3 4 True False,
   define_entry 0xB9 ''LDA'' (Some AM_ABSY) LDA 3 4 True False,
   define_entry 0xA1 ''LDA'' (Some AM_IZX) LDA 2 6 False False,
   define_entry 0xB1 ''LDA'' (Some AM_IZY) LDA 2 5 True False,
   define_entry 0xA2 ''LDX'' (Some AM_IMM) LDX 2 2 False False,
   define_entry 0xA6 ''LDX'' (Some AM_ZP) LDX 2 3 False False,
   define_entry 0xB6 ''LDX'' (Some AM_ZPY) LDX 2 4 False False,
   define_entry 0xAE ''LDX'' (Some AM_ABS) LDX 3 4 False False,
   define_entry 0xBE ''LDX'' (Some AM_ABSY) LDX 3 4 True False,
   define_entry 0xA0 ''LDY'' (Some AM_IMM) LDY 2 2 False False,
   define_entry 0xA4 ''LDY'' (Some AM_ZP) LDY 2 3 False False,
   define_entry 0xB4 ''LDY'' (Some AM_ZPX) LDY 2 4 False False,
   define_entry 0xAC ''LDY'' (Some AM_ABS) LDY 3 4 False False,
   define_entry 0xBC ''LDY'' (Some AM_ABSX) LDY 3 4 True False,
   define_entry 0x85 ''STA'' (Some AM_ZP) STA 2 3 False False,
   define_entry 0x95 ''STA'' (Some AM_ZPX) STA 2 4 False False,
   define_entry 0x8D ''STA'' (Some AM_ABS) STA 3 4 False False,
   define_entry 0x9D ''STA'' (Some AM_ABSX) STA 3 5 False False,
   define_entry 0x99 ''STA'' (Some AM_ABSY) STA 3 5 False False,
   define_entry 0x81 ''STA'' (Some AM_IZX) STA 2 6 False False,
   define_entry 0x91 ''STA'' (Some AM_IZY) STA 2 6 False False,
   define_entry 0x86 ''STX'' (Some AM_ZP) STX 2 3 False False,
   define_entry 0x96 ''STX'' (Some AM_ZPY) STX 2 4 False False,
   define_entry 0x8E ''STX'' (Some AM_ABS) STX 3 4 False False,
   define_entry 0x84 ''STY'' (Some AM_ZP) STY 2 3 False False,
   define_entry 0x94 ''STY'' (Some AM_ZPX) STY 2 4 False False,
   define_entry 0x8C ''STY'' (Some AM_ABS) STY 3 4 False False,
   define_entry 0x69 ''ADC'' (Some AM_IMM) ADC 2 2 False False,
   define_entry 0x65 ''ADC'' (Some AM_ZP) ADC 2 3 False False,
   define_entry 0x75 ''ADC'' (Some AM_ZPX) ADC 2 4 False False,
   define_entry 0x6D ''ADC'' (Some AM_ABS) ADC 3 4 False False,
   define_entry 0x7D ''ADC'' (Some AM_ABSX) ADC 3 4 True False,
   define_entry 0x79 ''ADC'' (Some AM_ABSY) ADC 3 4 True False,
   define_entry 0x61 ''ADC'' (Some AM_IZX) ADC 2 6 False False,
   define_entry 0x71 ''ADC'' (Some AM_IZY) ADC 2 5 True False,
   define_entry 0xE9 ''SBC'' (Some AM_IMM) SBC 2 2 False False,
   define_entry 0xE5 ''SBC'' (Some AM_ZP) SBC 2 3 False False,
   define_entry 0xF5 ''SBC'' (Some AM_ZPX) SBC 2 4 False False,
   define_entry 0xED ''SBC'' (Some AM_ABS) SBC 3 4 False False,
   define_entry 0xFD ''SBC'' (Some AM_ABSX) SBC 3 4 True False,
   define_entry 0xF9 ''SBC'' (Some AM_ABSY) SBC 3 4 True False,
   define_entry 0xE1 ''SBC'' (Some AM_IZX) SBC 2 6 False False,
   define_entry 0xF1 ''SBC'' (Some AM_IZY) SBC 2 5 True False,
   define_entry 0x90 ''BCC'' (Some AM_REL) BCC 2 2 False True,
   define_entry 0xB0 ''BCS'' (Some AM_REL) BCS 2 2 False True,
   define_entry 0xF0 ''BEQ'' (Some AM_REL) BEQ 2 2 False True,
   define_entry 0xD0 ''BNE'' (Some AM_REL) BNE 2 2 False True,
   define_entry 0x30 ''BMI'' (Some AM_REL) BMI 2 2 False True,
   define_entry 0x10 ''BPL'' (Some AM_REL) BPL 2 2 False True,
   define_entry 0x50 ''BVC'' (Some AM_REL) BVC 2 2 False True,
   define_entry 0x70 ''BVS'' (Some AM_REL) BVS 2 2 False True,
   define_entry 0x4C ''JMP'' (Some AM_ABS) JMP 3 3 False False,
   define_entry 0x6C ''JMP'' (Some AM_IND) JMP 3 5 False False,
   define_entry 0x20 ''JSR'' (Some AM_ABS) JSR 3 6 False False,
   define_entry 0x60 ''RTS'' None RTS 1 6 False False,
   define_entry 0x40 ''RTI'' None RTI 1 6 False False,
   define_entry 0xE6 ''INC'' (Some AM_ZP) INC 2 5 False False,
   define_entry 0xF6 ''INC'' (Some AM_ZPX) INC 2 6 False False,
   define_entry 0xEE ''INC'' (Some AM_ABS) INC 3 6 False False,
   define_entry 0xFE ''INC'' (Some AM_ABSX) INC 3 7 False False,
   define_entry 0xC6 ''DEC'' (Some AM_ZP) DEC 2 5 False False,
   define_entry 0xD6 ''DEC'' (Some AM_ZPX) DEC 2 6 False False,
   define_entry 0xCE ''DEC'' (Some AM_ABS) DEC 3 6 False False,
   define_entry 0xDE ''DEC'' (Some AM_ABSX) DEC 3 7 False False,
   define_entry 0xE8 ''INX'' None INX 1 2 False False,
   define_entry 0xC8 ''INY'' None INY 1 2 False False,
   define_entry 0xCA ''DEX'' None DEX 1 2 False False,
   define_entry 0x88 ''DEY'' None DEY 1 2 False False,
   define_entry 0xC9 ''CMP'' (Some AM_IMM) CMP 2 2 False False,
   define_entry 0xC5 ''CMP'' (Some AM_ZP) CMP 2 3 False False,
   define_entry 0xD5 ''CMP'' (Some AM_ZPX) CMP 2 4 False False,
   define_entry 0xCD ''CMP'' (Some AM_ABS) CMP 3 4 False False,
   define_entry 0xDD ''CMP'' (Some AM_ABSX) CMP 3 4 True False,
   define_entry 0xD9 ''CMP'' (Some AM_ABSY) CMP 3 4 True False,
   define_entry 0xC1 ''CMP'' (Some AM_IZX) CMP 2 6 False False,
   define_entry 0xD1 ''CMP'' (Some AM_IZY) CMP 2 5 True False,
   define_entry 0xE0 ''CPX'' (Some AM_IMM) CPX 2 2 False False,
   define_entry 0xE4 ''CPX'' (Some AM_ZP) CPX 2 3 False False,
   define_entry 0xEC ''CPX'' (Some AM_ABS) CPX 3 4 False False,
   define_entry 0xC0 ''CPY'' (Some AM_IMM) CPY 2 2 False False,
   define_entry 0xC4 ''CPY'' (Some AM_ZP) CPY 2 3 False False,
   define_entry 0xCC ''CPY'' (Some AM_ABS) CPY 3 4 False False,
   define_entry 0x29 ''AND'' (Some AM_IMM) AND_A 2 2 False False,
   define_entry 0x25 ''AND'' (Some AM_ZP) AND_A 2 3 False False,
   define_entry 0x35 ''AND'' (Some AM_ZPX) AND_A 2 4 False False,
   define_entry 0x2D ''AND'' (Some AM_ABS) AND_A 3 4 False False,
   define_entry 0x3D ''AND'' (Some AM_ABSX) AND_A 3 4 True False,
   define_entry 0x39 ''AND'' (Some AM_ABSY) AND_A 3 4 True False,
   define_entry 0x21 ''AND'' (Some AM_IZX) AND_A 2 6 False False,
   define_entry 0x31 ''AND'' (Some AM_IZY) AND_A 2 5 True False,
   define_entry 0x09 ''ORA'' (Some AM_IMM) ORA 2 2 False False,
   define_entry 0x05 ''ORA'' (Some AM_ZP) ORA 2 3 False False,
   define_entry 0x15 ''ORA'' (Some AM_ZPX) ORA 2 4 False False,
   define_entry 0x0D ''ORA'' (Some AM_ABS) ORA 3 4 False False,
   define_entry 0x1D ''ORA'' (Some AM_ABSX) ORA 3 4 True False,
   define_entry 0x19 ''ORA'' (Some AM_ABSY) ORA 3 4 True False,
   define_entry 0x01 ''ORA'' (Some AM_IZX) ORA 2 6 False False,
   define_entry 0x11 ''ORA'' (Some AM_IZY) ORA 2 5 True False,
   define_entry 0x49 ''EOR'' (Some AM_IMM) EOR 2 2 False False,
   define_entry 0x45 ''EOR'' (Some AM_ZP) EOR 2 3 False False,
   define_entry 0x55 ''EOR'' (Some AM_ZPX) EOR 2 4 False False,
   define_entry 0x4D ''EOR'' (Some AM_ABS) EOR 3 4 False False,
   define_entry 0x5D ''EOR'' (Some AM_ABSX) EOR 3 4 True False,
   define_entry 0x59 ''EOR'' (Some AM_ABSY) EOR 3 4 True False,
   define_entry 0x41 ''EOR'' (Some AM_IZX) EOR 2 6 False False,
   define_entry 0x51 ''EOR'' (Some AM_IZY) EOR 2 5 True False,
   define_entry 0x24 ''BIT'' (Some AM_ZP) BIT 2 3 False False,
   define_entry 0x2C ''BIT'' (Some AM_ABS) BIT 3 4 False False,
   define_entry 0x0A ''ASL'' None ASL_A 1 2 False False,
   define_entry 0x06 ''ASL'' (Some AM_ZP) ASL_M 2 5 False False,
   define_entry 0x16 ''ASL'' (Some AM_ZPX) ASL_M 2 6 False False,
   define_entry 0x0E ''ASL'' (Some AM_ABS) ASL_M 3 6 False False,
   define_entry 0x1E ''ASL'' (Some AM_ABSX) ASL_M 3 7 False False,
   define_entry 0x4A ''LSR'' None LSR_A 1 2 False False,
   define_entry 0x46 ''LSR'' (Some AM_ZP) LSR_M 2 5 False False,
   define_entry 0x56 ''LSR'' (Some AM_ZPX) LSR_M 2 6 False False,
   define_entry 0x4E ''LSR'' (Some AM_ABS) LSR_M 3 6 False False,
   define_entry 0x5E ''LSR'' (Some AM_ABSX) LSR_M 3 7 False False,
   define_entry 0x2A ''ROL'' None ROL_A 1 2 False False,
   define_entry 0x26 ''ROL'' (Some AM_ZP) ROL_M 2 5 False False,
   define_entry 0x36 ''ROL'' (Some AM_ZPX) ROL_M 2 6 False False,
   define_entry 0x2E ''ROL'' (Some AM_ABS) ROL_M 3 6 False False,
   define_entry 0x3E ''ROL'' (Some AM_ABSX) ROL_M 3 7 False False,
   define_entry 0x6A ''ROR'' None ROR_A 1 2 False False,
   define_entry 0x66 ''ROR'' (Some AM_ZP) ROR_M 2 5 False False,
   define_entry 0x76 ''ROR'' (Some AM_ZPX) ROR_M 2 6 False False,
   define_entry 0x6E ''ROR'' (Some AM_ABS) ROR_M 3 6 False False,
   define_entry 0x7E ''ROR'' (Some AM_ABSX) ROR_M 3 7 False False,
   define_entry 0x48 ''PHA'' None PHA 1 3 False False,
   define_entry 0x08 ''PHP'' None PHP 1 3 False False,
   define_entry 0x68 ''PLA'' None PLA 1 4 False False,
   define_entry 0x28 ''PLP'' None PLP 1 4 False False,
   define_entry 0xAA ''TAX'' None TAX 1 2 False False,
   define_entry 0x8A ''TXA'' None TXA 1 2 False False,
   define_entry 0xA8 ''TAY'' None TAY 1 2 False False,
   define_entry 0x98 ''TYA'' None TYA 1 2 False False,
   define_entry 0xBA ''TSX'' None TSX 1 2 False False,
   define_entry 0x9A ''TXS'' None TXS 1 2 False False,
   define_entry 0x18 ''CLC'' None CLC 1 2 False False,
   define_entry 0x38 ''SEC'' None SEC 1 2 False False,
   define_entry 0x58 ''CLI'' None CLI 1 2 False False,
   define_entry 0x78 ''SEI'' None SEI 1 2 False False,
   define_entry 0xD8 ''CLD'' None CLD 1 2 False False,
   define_entry 0xF8 ''SED'' None SED 1 2 False False,
   define_entry 0xB8 ''CLV'' None CLV 1 2 False False,
   define_entry 0xEA ''NOP'' None NOP 1 2 False False,
   define_entry 0x00 ''BRK'' None BRK 1 7 False False,
   define_entry 0x1A ''NOP*'' None NOP 1 2 False False,
   define_entry 0x3A ''NOP*'' None NOP 1 2 False False,
   define_entry 0x5A ''NOP*'' None NOP 1 2 False False,
   define_entry 0x7A ''NOP*'' None NOP 1 2 False False,
   define_entry 0xDA ''NOP*'' None NOP 1 2 False False,
   define_entry 0xFA ''NOP*'' None NOP 1 2 False False,
   define_entry 0x80 ''NOP*'' (Some AM_IMM) NOP 2 2 False False,
   define_entry 0x04 ''NOP*'' (Some AM_ZP) NOP 2 3 False False]"

definition instructionSet :: "int \<rightharpoonup> InstructionDefinition" where
  "instructionSet = fold (\<lambda>d s. s(opCode d \<mapsto> d)) definitions Map.empty"

definition getInstructionDefinition :: "int \<Rightarrow> InstructionDefinition option" where
  "getInstructionDefinition oc = instructionSet oc"

section \<open>The execution engine\<close>

text \<open>
  Reading a property of \<open>undefined\<close> throws a \<open>TypeError\<close>. The engine can meet it where
  it formats an opcode it read from outside the array.
\<close>

datatype error = TypeError

definition initialCPUState :: CPUState where
  "initialCPUState =
     \<lparr>A = 0, X = 0, Y = 0, PC = DEFAULT_PROGRAM_LOAD_ADDRESS, SP = 0xFD,
      P = Flag_U OR Flag_I, cycles = 0, halted = False\<rparr>"

text \<open>
  \<open>resetCPU\<close> takes the optional load address; \<open>!loadAddress\<close> holds for a missing
  argument and for the number 0.
\<close>

definition resetCPU :: "memory \<Rightarrow> int option \<Rightarrow> CPUState" where
  "resetCPU memory loadAddress =
     (let startPC = (case loadAddress of Some a \<Rightarrow> a | None \<Rightarrow> DEFAULT_PROGRAM_LOAD_ADDRESS);
          startPC =
            (if mem_index memory RESET_VECTOR_ADDRESS \<noteq> None
                \<and> mem_index memory (RESET_VECTOR_ADDRESS + 1) \<noteq> None
                \<and> (loadAddress = None \<or> loadAddress = Some 0)
             then (let lowByte = mem_read memory RESET_VECTOR_ADDRESS;
                       highByte = mem_read memory (RESET_VECTOR_ADDRESS + 1)
                   in push_bit 8 highByte OR lowByte)
             else startPC)
      in initialCPUState\<lparr>PC := startPC, P := Flag_U OR Flag_I, SP := 0xFD,
                          halted := False, cycles := 0\<rparr>)"

text \<open>
  One step of the engine. The updater returns the next processor state; the effect
  functions write into the memory array in place, so the model returns the memory too.
  The diagnostic log of the user interface is not part of the model, except that the
  message for an unknown opcode formats the opcode and so throws when the opcode is
  \<open>undefined\<close>.
\<close>

definition step :: "CPUState \<Rightarrow> memory \<Rightarrow> error + (CPUState \<times> memory)" where
  "step prevCpu memory =
     (if halted prevCpu then Inr (prevCpu, memory)
      else
        (let currentPC = PC prevCpu in
         case mem_index memory currentPC of
           None \<Rightarrow> Inl TypeError
         | Some oc \<Rightarrow>
             (let newCpu = prevCpu\<lparr>PC := (PC prevCpu + 1) AND 0xFFFF\<rparr> in
              case getInstructionDefinition oc of
                None \<Rightarrow> Inr (newCpu\<lparr>PC := currentPC, halted := True\<rparr>, memory)
              | Some instructionDef \<Rightarrow>
                  (let (operandAddress, crossed, newCpu) =
                         (case addressingMode instructionDef of
                            Some am \<Rightarrow>
                              (let (addrResult, newCpu) = addressingModeFunc am newCpu memory
                               in (address addrResult,
                                   (case pageCrossed addrResult of Some c \<Rightarrow> c | None \<Rightarrow> False),
                                   newCpu))
                          | None \<Rightarrow> (0, False, newCpu));
                       (newCpu, memory) = execute instructionDef newCpu memory operandAddress;
                       newCpu = newCpu\<lparr>cycles := cycles newCpu + baseCycles instructionDef\<rparr>;
                       newCpu = (if pageCrossCycle instructionDef \<and> crossed
                                 then newCpu\<lparr>cycles := cycles newCpu + 1\<rparr> else newCpu)
                   in Inr (newCpu, memory)))))"

text \<open>Repeated stepping, as the run loop of the caller does it.\<close>

fun steps :: "nat \<Rightarrow> CPUState \<Rightarrow> memory \<Rightarrow> error + (CPUState \<times> memory)" where
  "steps 0 cpu memory = Inr (cpu, memory)"
| "steps (Suc n) cpu memory =
     (case step cpu memory of
        Inl e \<Rightarrow> Inl e
      | Inr (cpu', memory') \<Rightarrow> steps n cpu' memory')"

section \<open>The disassembler\<close>

record InstructionInfo =
  info_address :: int
  info_opCode :: int
  info_mnemonic :: string
  info_operandStr :: string
  info_bytes :: "int list"
  info_text :: string

text \<open>\<open>n.toString(16)\<close> for a number that is not negative, and \<open>padStart\<close>.\<close>

definition hexDigit :: "nat \<Rightarrow> char" where
  "hexDigit d = ''0123456789abcdef'' ! d"

function toString16 :: "nat \<Rightarrow> string" where
  "toString16 n = (if n < 16 then [hexDigit n] else toString16 (n div 16) @ [hexDigit (n mod 16)])"
  by pat_completeness auto
termination
  by (relation "measure id") auto

declare toString16.simps [simp del]

definition padStart :: "string \<Rightarrow> nat \<Rightarrow> char \<Rightarrow> string" where
  "padStart s n c = replicate (n - length s) c @ s"

definition hex2 :: "int \<Rightarrow> string" where
  "hex2 v = padStart (toString16 (nat v)) 2 CHR ''0''"

definition hex4 :: "int \<Rightarrow> string" where
  "hex4 v = padStart (toString16 (nat v)) 4 CHR ''0''"

text \<open>A bitwise operator reads \<open>undefined\<close> as 0.\<close>

definition toInt32 :: "int option \<Rightarrow> int" where
  "toInt32 v = (case v of Some n \<Rightarrow> n | None \<Rightarrow> 0)"

text \<open>
  The operand text of a two-byte instruction. The operand is \<open>memory[currentAddress + 1]\<close>
  and is \<open>undefined\<close> (\<open>None\<close>) when that index is outside the array. Every mode but the
  relative one calls \<open>operand.toString\<close>, which throws on \<open>undefined\<close>. The relative mode
  only computes with the operand: \<open>undefined > 127\<close> is false, the sum
  \<open>currentAddress + 2 + undefined\<close> is \<open>NaN\<close>, and \<open>NaN & 0xFFFF\<close> is 0, so the text is
  that of the address 0.
\<close>

definition operandStr2 :: "AddressingMode option \<Rightarrow> int \<Rightarrow> int option \<Rightarrow> error + string" where
  "operandStr2 am currentAddress operand =
     (if am = Some AM_IMM then
        (case operand of None \<Rightarrow> Inl TypeError | Some v \<Rightarrow> Inr (''#$'' @ hex2 v))
      else if am = Some AM_REL then
        (let relAddr =
               (case operand of
                  None \<Rightarrow> 0
                | Some v \<Rightarrow> (currentAddress + 2 + (if v > 127 then v - 256 else v)) AND 0xFFFF)
         in Inr (''$'' @ hex4 relAddr))
      else if am = Some AM_ZP then
        (case operand of None \<Rightarrow> Inl TypeError | Some v \<Rightarrow> Inr (''$'' @ hex2 v))
      else if am = Some AM_ZPX then
        (case operand of None \<Rightarrow> Inl TypeError | Some v \<Rightarrow> Inr (''$'' @ hex2 v @ '',X''))
      else if am = Some AM_ZPY then
        (case operand of None \<Rightarrow> Inl TypeError | Some v \<Rightarrow> Inr (''$'' @ hex2 v @ '',Y''))
      else if am = Some AM_IZX then
        (case operand of None \<Rightarrow> Inl TypeError | Some v \<Rightarrow> Inr (''($'' @ hex2 v @ '',X)''))
      else if am = Some AM_IZY then
        (case operand of None \<Rightarrow> Inl TypeError | Some v \<Rightarrow> Inr (''($'' @ hex2 v @ ''),Y''))
      else
        (case operand of None \<Rightarrow> Inl TypeError | Some v \<Rightarrow> Inr (''$'' @ hex2 v)))"

definition operandStr3 :: "AddressingMode option \<Rightarrow> int \<Rightarrow> string" where
  "operandStr3 am operandWord =
     (if am = Some AM_ABS then ''$'' @ hex4 operandWord
      else if am = Some AM_ABSX then ''$'' @ hex4 operandWord @ '',X''
      else if am = Some AM_ABSY then ''$'' @ hex4 operandWord @ '',Y''
      else if am = Some AM_IND then ''($'' @ hex4 operandWord @ '')''
      else ''$'' @ hex4 operandWord)"

text \<open>
  The emulator owns a processor state and a memory. \<open>disassemble\<close> is a method of it that
  reads the memory; the model passes the emulator through the method and returns, with
  the result, the emulator the method leaves behind.
\<close>

record Emulator =
  em_cpu :: CPUState
  em_memory :: memory

text \<open>
  The body of the disassembly loop for one address: the record pushed and the length by
  which the walk advances. An opcode read outside the array is \<open>undefined\<close>, has no table
  entry, and the placeholder text cannot be formatted. An operand byte beyond the end of
  the array is shown as 0 in the byte list.
\<close>

definition disassembleAt ::
  "Emulator \<Rightarrow> int \<Rightarrow> (error + (InstructionInfo \<times> int)) \<times> Emulator" where
  "disassembleAt em currentAddress =
     (case mem_index (em_memory em) currentAddress of
        None \<Rightarrow> (Inl TypeError, em)
      | Some oc \<Rightarrow>
          (case getInstructionDefinition oc of
             None \<Rightarrow>
               (Inr (\<lparr>info_address = currentAddress, info_opCode = oc, info_mnemonic = ''???'',
                      info_operandStr = '''', info_bytes = [oc],
                      info_text = ''DB $'' @ hex2 oc\<rparr>, 1), em)
           | Some instructionDef \<Rightarrow>
               (let bs = [oc] @ map (\<lambda>j. if currentAddress + j < MEMORY_SIZE
                                          then mem_read (em_memory em) (currentAddress + j)
                                          else 0)
                                    [1 .. bytes instructionDef - 1];
                    operandStr =
                      (if bytes instructionDef = 2 then
                         operandStr2 (addressingMode instructionDef) currentAddress
                           (mem_index (em_memory em) (currentAddress + 1))
                       else if bytes instructionDef = 3 then
                         (let operandLow = mem_index (em_memory em) (currentAddress + 1);
                              operandHigh = mem_index (em_memory em) (currentAddress + 2);
                              operandWord = push_bit 8 (toInt32 operandHigh) OR toInt32 operandLow
                          in Inr (operandStr3 (addressingMode instructionDef) operandWord))
                       else Inr '''')
                in case operandStr of
                     Inl e \<Rightarrow> (Inl e, em)
                   | Inr s \<Rightarrow>
                       (Inr (\<lparr>info_address = currentAddress, info_opCode = oc,
                              info_mnemonic = mnemonic instructionDef, info_operandStr = s,
                              info_bytes = bs,
                              info_text = mnemonic instructionDef @ '' '' @ s\<rparr>,
                             bytes instructionDef), em))))"

function disassembleLoop ::
  "Emulator \<Rightarrow> int \<Rightarrow> int \<Rightarrow> int \<Rightarrow> InstructionInfo list
     \<Rightarrow> (error + InstructionInfo list) \<times> Emulator" where
  "disassembleLoop em count i currentAddress disassembly =
     (if i < count \<and> currentAddress < MEMORY_SIZE then
        (case disassembleAt em currentAddress of
           (Inl e, em') \<Rightarrow> (Inl e, em')
         | (Inr (info, len), em') \<Rightarrow>
             disassembleLoop em' count (i + 1) (currentAddress + len) (disassembly @ [info]))
      else (Inr disassembly, em))"
  by pat_completeness auto
termination
  by (relation "measure (\<lambda>(em, count, i, currentAddress, disassembly). nat (count - i))") auto

declare disassembleLoop.simps [simp del]

definition disassemble ::
  "Emulator \<Rightarrow> int \<Rightarrow> int \<Rightarrow> (error + InstructionInfo list) \<times> Emulator" where
  "disassemble em startAddress count = disassembleLoop em count 0 startAddress []"

section \<open>The masking invariant\<close>

text \<open>The ranges of the data model: 8-bit registers and a 16-bit program counter.\<close>

definition registers_in_range :: "CPUState \<Rightarrow> bool" where
  "registers_in_range c \<longleftrightarrow>
     0 \<le> A c \<and> A c \<le> 255 \<and> 0 \<le> X c \<and> X c \<le> 255 \<and> 0 \<le> Y c \<and> Y c \<le> 255
     \<and> 0 \<le> SP c \<and> SP c \<le> 255 \<and> 0 \<le> PC c \<and> PC c \<le> 65535"

section \<open>Arithmetic of the masks\<close>

lemmas Flag_defs = Flag_C_def Flag_Z_def Flag_I_def Flag_D_def Flag_B_def Flag_U_def
  Flag_V_def Flag_N_def

lemma and_FF_mod: "(x::int) AND 0xFF = x mod 256"
  using take_bit_eq_mask [of 8 x] by (simp add: take_bit_eq_mod mask_eq_exp_minus_1)

lemma and_FFFF_mod: "(x::int) AND 0xFFFF = x mod 65536"
  using take_bit_eq_mask [of 16 x] by (simp add: take_bit_eq_mod mask_eq_exp_minus_1)

lemma mem_read_bounds: "0 \<le> mem_read m a" "mem_read m a < 256" "mem_read m a \<le> 255"
  using uint_bounded [of "m a"] by (simp_all add: mem_read_def)

lemma mem_read_write_same: "in_memory a \<Longrightarrow> mem_read (mem_write m a v) a = v mod 256"
  by (simp add: mem_read_def mem_write_def uint_word_of_int)

lemma mem_read_write_other: "a \<noteq> b \<Longrightarrow> mem_read (mem_write m a v) b = mem_read m b"
  by (simp add: mem_read_def mem_write_def)

lemma join_bytes: "0 \<le> l \<Longrightarrow> l < 256 \<Longrightarrow> push_bit 8 h OR l = 256 * h + (l::int)"
  using concat_bit_eq [of 8 l h]
  by (simp add: concat_bit_def take_bit_eq_mod push_bit_eq_mult or.commute)

lemma join_bytes': "0 \<le> l \<Longrightarrow> l < 256 \<Longrightarrow> l OR push_bit 8 h = 256 * h + (l::int)"
  using join_bytes [of l h] by (simp add: or.commute)

lemma stack_in_memory: "0 \<le> s \<Longrightarrow> s \<le> 255 \<Longrightarrow> in_memory (STACK_BASE + s)"
  by (simp add: in_memory_def STACK_BASE_def MEMORY_SIZE_def)

section \<open>Stores and the transfer to the stack pointer\<close>

text \<open>
  Claim C10. The stores STA, STX and STY return the processor state they were given, so
  the status register with its Zero and Negative flags is untouched; of the memory they
  change at most the cell at the operand address, which receives the register modulo
  256. TXS changes the stack pointer and nothing else; the status register is the same
  before and after. A load and the transfer TAX, by contrast, pass the status register
  through \<open>setZN\<close>, which changes it, for one, when the value is 0 and the Zero flag is
  clear.
\<close>

theorem store_and_TXS_frame:
  "fst (STA c m addr) = c \<and> fst (STX c m addr) = c \<and> fst (STY c m addr) = c
   \<and> (\<forall>i. i \<noteq> addr \<longrightarrow>
          snd (STA c m addr) i = m i \<and> snd (STX c m addr) i = m i \<and> snd (STY c m addr) i = m i)
   \<and> (in_memory addr \<longrightarrow>
          mem_index (snd (STA c m addr)) addr = Some (A c mod 256)
        \<and> mem_index (snd (STX c m addr)) addr = Some (X c mod 256)
        \<and> mem_index (snd (STY c m addr)) addr = Some (Y c mod 256))
   \<and> TXS c m addr = (c\<lparr>SP := X c\<rparr>, m)
   \<and> P (fst (TXS c m addr)) = P c
   \<and> P (fst (LDA c m addr)) = P (setZN c (mem_read m addr))
   \<and> P (fst (TAX c m addr)) = P (setZN c (A c))
   \<and> P (setZN (c\<lparr>P := 0x24\<rparr>) 0) \<noteq> P (c\<lparr>P := 0x24\<rparr>)"
proof -
  have loads: "P (fst (LDA c m addr)) = P (setZN c (mem_read m addr))"
    "P (fst (TAX c m addr)) = P (setZN c (A c))"
    by (simp_all add: LDA_def TAX_def setZN_def Let_def)
  have changes: "P (setZN (c\<lparr>P := 0x24\<rparr>) 0) \<noteq> P (c\<lparr>P := 0x24\<rparr>)"
    by (simp add: setZN_def Let_def Flag_defs)
  show ?thesis
    using loads changes
    by (simp add: STA_def STX_def STY_def TXS_def mem_write_def mem_index_def
        uint_word_of_int)
qed

theorem store_and_TXS_frame_witness:
  "(0x11::int) \<noteq> 0x10 \<and> in_memory 0x10
   \<and> snd (STA \<lparr>A = 0xC0, X = 0xC1, Y = 0xC2, PC = 0x208, SP = 0xFD, P = 0xA4,
               cycles = 6, halted = False\<rparr> ((\<lambda>_. 0)(0x11 := 7)) 0x10) 0x11 = 7
   \<and> mem_index (snd (STA \<lparr>A = 0xC0, X = 0xC1, Y = 0xC2, PC = 0x208, SP = 0xFD, P = 0xA4,
               cycles = 6, halted = False\<rparr> ((\<lambda>_. 0)(0x11 := 7)) 0x10)) 0x10 = Some 0xC0
   \<and> P (fst (TXS \<lparr>A = 0xC0, X = 0xC1, Y = 0xC2, PC = 0x208, SP = 0xFD, P = 0xA4,
               cycles = 6, halted = False\<rparr> ((\<lambda>_. 0)(0x11 := 7)) 0x10)) = 0xA4"
  using store_and_TXS_frame [of "\<lparr>A = 0xC0, X = 0xC1, Y = 0xC2, PC = 0x208, SP = 0xFD,
      P = 0xA4, cycles = 6, halted = False\<rparr>" "(\<lambda>_. 0)(0x11 := 7)" "0x10"]
  by (simp add: in_memory_def MEMORY_SIZE_def)


lemma drop8: "drop_bit 8 (v::int) = v div 256"
  by (simp add: drop_bit_eq_div)

lemma pushWord_eq:
  assumes "0 \<le> SP c" "SP c \<le> 255"
  shows "pushWord c m v =
     (c\<lparr>SP := (SP c - 2) mod 256\<rparr>,
      mem_write (mem_write m (STACK_BASE + SP c) (v div 256 mod 256))
                (STACK_BASE + (SP c - 1) mod 256) (v mod 256))"
  using assms
  by (simp add: pushWord_def pushByte_def Let_def and_FF_mod drop8 mod_diff_left_eq)

lemma pullWord_eq:
  "pullWord c m =
     (256 * mem_read m (STACK_BASE + (SP c + 2) mod 256)
        + mem_read m (STACK_BASE + (SP c + 1) mod 256),
      c\<lparr>SP := (SP c + 2) mod 256\<rparr>)"
  by (simp add: pullWord_def pullByte_def Let_def and_FF_mod join_bytes mem_read_bounds
      mod_add_left_eq mod_add_right_eq add.commute)

section \<open>Subroutine call and return\<close>

text \<open>
  Claim C5. For a processor state whose program counter and stack pointer are in range,
  JSR to a target pushes the program counter minus one as a word, high byte first at
  the stack pointer and low byte below it, lowers the stack pointer by two modulo 256
  and sets the program counter to the target; RTS from the state and memory that JSR
  left gives back the processor state from before the call, program counter and stack
  pointer included, and leaves the memory as it is.
\<close>

theorem JSR_RTS_roundtrip:
  assumes "0 \<le> PC c" "PC c \<le> 0xFFFF" "0 \<le> SP c" "SP c \<le> 0xFF"
  shows "PC (fst (JSR c m target)) = target
       \<and> SP (fst (JSR c m target)) = (SP c - 2) AND 0xFF
       \<and> mem_read (snd (JSR c m target)) (STACK_BASE + SP c) = drop_bit 8 ((PC c - 1) AND 0xFFFF)
       \<and> mem_read (snd (JSR c m target)) (STACK_BASE + ((SP c - 1) AND 0xFF)) = ((PC c - 1) AND 0xFFFF) AND 0xFF
       \<and> fst (RTS (fst (JSR c m target)) (snd (JSR c m target)) addr) = c
       \<and> snd (RTS (fst (JSR c m target)) (snd (JSR c m target)) addr) = snd (JSR c m target)"
proof -
  define v where "v = (PC c - 1) mod 65536"
  define s1 where "s1 = (SP c - 1) mod 256"
  define m1 where "m1 = mem_write (mem_write m (STACK_BASE + SP c) (v div 256 mod 256))
                                  (STACK_BASE + s1) (v mod 256)"
  have v: "0 \<le> v" "v < 65536" by (simp_all add: v_def)
  have s1: "0 \<le> s1" "s1 \<le> 255" by (simp_all add: s1_def)
  have ne: "s1 \<noteq> SP c"
  proof (cases "SP c = 0")
    case True
    then show ?thesis by (simp add: s1_def)
  next
    case False
    with assms have "(SP c - 1) mod 256 = SP c - 1" by simp
    then show ?thesis by (simp add: s1_def)
  qed
  have J: "JSR c m target = (c\<lparr>SP := (SP c - 2) mod 256, PC := target\<rparr>, m1)"
    using assms by (simp add: JSR_def pushWord_eq and_FFFF_mod v_def s1_def m1_def)
  have hi: "mem_read m1 (STACK_BASE + SP c) = v div 256"
    using assms ne v by (simp add: m1_def mem_read_write_other mem_read_write_same stack_in_memory)
  have lo: "mem_read m1 (STACK_BASE + s1) = v mod 256"
    using s1 by (simp add: m1_def mem_read_write_same stack_in_memory)
  have b1: "((SP c - 2) mod 256 + 1) mod 256 = s1"
    by (simp add: s1_def mod_add_left_eq)
  have b2: "((SP c - 2) mod 256 + 2) mod 256 = SP c"
    using assms by (simp add: mod_add_left_eq)
  have w: "256 * (v div 256) + v mod 256 = v" by simp
  have pc: "(v + 1) mod 65536 = PC c"
    using assms by (simp add: v_def mod_add_left_eq)
  have R: "RTS (c\<lparr>SP := (SP c - 2) mod 256, PC := target\<rparr>) m1 addr = (c, m1)"
    by (simp add: RTS_def pullWord_eq b1 b2 hi lo and_FFFF_mod pc)
  show ?thesis
    using hi lo by (simp add: J R and_FF_mod and_FFFF_mod drop8 v_def s1_def)
qed

theorem JSR_RTS_roundtrip_witness:
  "fst (JSR \<lparr>A = 0, X = 0, Y = 0, PC = 0x1003, SP = 0xFD, P = 0x24, cycles = 0, halted = False\<rparr>
            (\<lambda>_. 0) 0x2000)
     = \<lparr>A = 0, X = 0, Y = 0, PC = 0x2000, SP = 0xFB, P = 0x24, cycles = 0, halted = False\<rparr>
   \<and> mem_read (snd (JSR \<lparr>A = 0, X = 0, Y = 0, PC = 0x1003, SP = 0xFD, P = 0x24, cycles = 0,
                         halted = False\<rparr> (\<lambda>_. 0) 0x2000)) 0x01FD = 0x10
   \<and> mem_read (snd (JSR \<lparr>A = 0, X = 0, Y = 0, PC = 0x1003, SP = 0xFD, P = 0x24, cycles = 0,
                         halted = False\<rparr> (\<lambda>_. 0) 0x2000)) 0x01FC = 0x02
   \<and> fst (RTS \<lparr>A = 0, X = 0, Y = 0, PC = 0x2000, SP = 0xFB, P = 0x24, cycles = 0, halted = False\<rparr>
            (snd (JSR \<lparr>A = 0, X = 0, Y = 0, PC = 0x1003, SP = 0xFD, P = 0x24, cycles = 0,
                       halted = False\<rparr> (\<lambda>_. 0) 0x2000)) 0)
     = \<lparr>A = 0, X = 0, Y = 0, PC = 0x1003, SP = 0xFD, P = 0x24, cycles = 0, halted = False\<rparr>"
  using JSR_RTS_roundtrip [of "\<lparr>A = 0, X = 0, Y = 0, PC = 0x1003, SP = 0xFD, P = 0x24,
      cycles = 0, halted = False\<rparr>" "\<lambda>_. 0" "0x2000" 0]
  by (simp add: JSR_def RTS_def pushWord_def pushByte_def pullWord_def pullByte_def
      mem_write_def mem_read_def in_memory_def MEMORY_SIZE_def STACK_BASE_def)

section \<open>The status register on the stack\<close>

lemma flag_B_bit: "(x::int) AND Flag_B \<noteq> 0 \<longleftrightarrow> bit x 4"
  using and_exp_eq_0_iff_not_bit [of x 4] by (simp add: Flag_B_def)

lemma flag_U_bit: "(x::int) AND Flag_U \<noteq> 0 \<longleftrightarrow> bit x 5"
  using and_exp_eq_0_iff_not_bit [of x 5] by (simp add: Flag_U_def)

lemma pushed_status_bits:
  "((p OR Flag_B OR Flag_U) mod 256) AND Flag_B \<noteq> 0 \<and> ((p OR Flag_B OR Flag_U) mod 256) AND Flag_U \<noteq> 0"
  unfolding flag_B_bit flag_U_bit
  by (simp add: bit_simps Flag_defs flip: and_FF_mod)

lemma pulled_status_bits:
  "((b AND NOT Flag_B) OR Flag_U) AND Flag_B = 0
   \<and> ((b AND NOT Flag_B) OR Flag_U) AND Flag_U \<noteq> 0
   \<and> ((b AND NOT Flag_B) OR Flag_U) AND NOT (Flag_B OR Flag_U) = b AND NOT (Flag_B OR Flag_U)"
  using flag_B_bit [of "(b AND NOT Flag_B) OR Flag_U"]
  unfolding flag_U_bit
  by (simp add: bit_simps Flag_defs and.assoc bit.conj_disj_distrib2)

text \<open>
  Claim C9. With the stack pointer in range, the byte that PHP stores at the stack
  pointer, and the byte that BRK stores below the two bytes of the program counter, is
  the status register with the Break and unused bits set; after PLP and after RTI the
  status register has the Break bit clear and the unused bit set, whatever byte was
  pulled, and agrees with the pulled byte on the other six bits.
\<close>

theorem status_push_pull_bits:
  assumes "0 \<le> SP c" "SP c \<le> 0xFF"
  shows "mem_read (snd (PHP c m addr)) (STACK_BASE + SP c) = (P c OR Flag_B OR Flag_U) mod 256
       \<and> mem_read (snd (PHP c m addr)) (STACK_BASE + SP c) AND Flag_B \<noteq> 0
       \<and> mem_read (snd (PHP c m addr)) (STACK_BASE + SP c) AND Flag_U \<noteq> 0
       \<and> mem_read (snd (BRK c m addr)) (STACK_BASE + ((SP c - 2) AND 0xFF))
             = (P c OR Flag_B OR Flag_U) mod 256
       \<and> mem_read (snd (BRK c m addr)) (STACK_BASE + ((SP c - 2) AND 0xFF)) AND Flag_B \<noteq> 0
       \<and> mem_read (snd (BRK c m addr)) (STACK_BASE + ((SP c - 2) AND 0xFF)) AND Flag_U \<noteq> 0
       \<and> P (fst (PLP c m addr)) AND Flag_B = 0
       \<and> P (fst (PLP c m addr)) AND Flag_U \<noteq> 0
       \<and> P (fst (PLP c m addr)) AND NOT (Flag_B OR Flag_U)
             = mem_read m (STACK_BASE + ((SP c + 1) AND 0xFF)) AND NOT (Flag_B OR Flag_U)
       \<and> P (fst (RTI c m addr)) AND Flag_B = 0
       \<and> P (fst (RTI c m addr)) AND Flag_U \<noteq> 0
       \<and> P (fst (RTI c m addr)) AND NOT (Flag_B OR Flag_U)
             = mem_read m (STACK_BASE + ((SP c + 1) AND 0xFF)) AND NOT (Flag_B OR Flag_U)"
proof -
  have php: "mem_read (snd (PHP c m addr)) (STACK_BASE + SP c) = (P c OR Flag_B OR Flag_U) mod 256"
    using assms by (simp add: PHP_def pushByte_def mem_read_write_same stack_in_memory)
  have brk: "mem_read (snd (BRK c m addr)) (STACK_BASE + ((SP c - 2) AND 0xFF))
             = (P c OR Flag_B OR Flag_U) mod 256"
    using assms
    by (simp add: BRK_def fetchByte_def pushWord_eq pushByte_def Let_def and_FF_mod
        mem_read_write_same stack_in_memory)
  have plp: "P (fst (PLP c m addr)) = (mem_read m (STACK_BASE + ((SP c + 1) AND 0xFF)) AND NOT Flag_B) OR Flag_U"
    by (simp add: PLP_def pullByte_def Let_def)
  have rti: "P (fst (RTI c m addr)) = (mem_read m (STACK_BASE + ((SP c + 1) AND 0xFF)) AND NOT Flag_B) OR Flag_U"
    by (simp add: RTI_def pullByte_def pullWord_eq Let_def)
  show ?thesis
    unfolding php brk plp rti
    using pushed_status_bits [of "P c"] pulled_status_bits [of "mem_read m (STACK_BASE + ((SP c + 1) AND 0xFF))"]
    by simp
qed

theorem status_push_pull_bits_witness:
  "mem_read (snd (PHP \<lparr>A = 0, X = 0, Y = 0, PC = 0x200, SP = 0xFD, P = 0x81, cycles = 0,
                       halted = False\<rparr> ((\<lambda>_. 0)(0x01FE := 0xDF)) 0)) 0x01FD = 0xB1
   \<and> mem_read (snd (BRK \<lparr>A = 0, X = 0, Y = 0, PC = 0x200, SP = 0xFD, P = 0x81, cycles = 0,
                       halted = False\<rparr> ((\<lambda>_. 0)(0x01FE := 0xDF)) 0)) 0x01FB = 0xB1
   \<and> P (fst (PLP \<lparr>A = 0, X = 0, Y = 0, PC = 0x200, SP = 0xFD, P = 0x81, cycles = 0,
                       halted = False\<rparr> ((\<lambda>_. 0)(0x01FE := 0xDF)) 0)) = 0xEF
   \<and> P (fst (RTI \<lparr>A = 0, X = 0, Y = 0, PC = 0x200, SP = 0xFD, P = 0x81, cycles = 0,
                       halted = False\<rparr> ((\<lambda>_. 0)(0x01FE := 0xDF)) 0)) = 0xEF"
  using status_push_pull_bits [of "\<lparr>A = 0, X = 0, Y = 0, PC = 0x200, SP = 0xFD, P = 0x81,
      cycles = 0, halted = False\<rparr>" "(\<lambda>_. 0)(0x01FE := 0xDF)" 0]
  by (simp add: PHP_def BRK_def PLP_def RTI_def fetchByte_def pushWord_def pushByte_def
      pullWord_def pullByte_def mem_write_def mem_read_def in_memory_def MEMORY_SIZE_def
      STACK_BASE_def Flag_defs)
section \<open>Flags and arithmetic\<close>

lemma flag_C_bit: "(x::int) AND Flag_C \<noteq> 0 \<longleftrightarrow> bit x 0"
  using and_exp_eq_0_iff_not_bit [of x 0] by (simp add: Flag_C_def)
lemma flag_Z_bit: "(x::int) AND Flag_Z \<noteq> 0 \<longleftrightarrow> bit x 1"
  using and_exp_eq_0_iff_not_bit [of x 1] by (simp add: Flag_Z_def)
lemma flag_V_bit: "(x::int) AND Flag_V \<noteq> 0 \<longleftrightarrow> bit x 6"
  using and_exp_eq_0_iff_not_bit [of x 6] by (simp add: Flag_V_def)
lemma flag_N_bit: "(x::int) AND Flag_N \<noteq> 0 \<longleftrightarrow> bit x 7"
  using and_exp_eq_0_iff_not_bit [of x 7] by (simp add: Flag_N_def)
lemma mask80_bit: "(x::int) AND 0x80 \<noteq> 0 \<longleftrightarrow> bit x 7"
  using and_exp_eq_0_iff_not_bit [of x 7] by simp

lemmas flag_bits = flag_C_bit flag_Z_bit flag_V_bit flag_N_bit flag_B_bit flag_U_bit

lemma bit_Flag:
  "bit Flag_C n \<longleftrightarrow> n = 0" "bit Flag_Z n \<longleftrightarrow> n = 1" "bit Flag_I n \<longleftrightarrow> n = 2"
  "bit Flag_D n \<longleftrightarrow> n = 3" "bit Flag_B n \<longleftrightarrow> n = 4" "bit Flag_U n \<longleftrightarrow> n = 5"
  "bit Flag_V n \<longleftrightarrow> n = 6" "bit Flag_N n \<longleftrightarrow> n = 7"
  using bit_exp_iff [where ?'a = int, of 0 n] bit_exp_iff [where ?'a = int, of 1 n]
    bit_exp_iff [where ?'a = int, of 2 n] bit_exp_iff [where ?'a = int, of 3 n]
    bit_exp_iff [where ?'a = int, of 4 n] bit_exp_iff [where ?'a = int, of 5 n]
    bit_exp_iff [where ?'a = int, of 6 n] bit_exp_iff [where ?'a = int, of 7 n]
  by (simp_all add: Flag_defs)

lemma setZN_fields [simp]:
  "A (setZN c v) = A c" "X (setZN c v) = X c" "Y (setZN c v) = Y c" "PC (setZN c v) = PC c"
  "SP (setZN c v) = SP c" "cycles (setZN c v) = cycles c" "halted (setZN c v) = halted c"
  by (simp_all add: setZN_def Let_def)

lemma setZNC_fields [simp]:
  "A (setZNC c v k) = A c" "X (setZNC c v k) = X c" "Y (setZNC c v k) = Y c"
  "PC (setZNC c v k) = PC c" "SP (setZNC c v k) = SP c" "cycles (setZNC c v k) = cycles c"
  "halted (setZNC c v k) = halted c"
  by (simp_all add: setZNC_def Let_def)

lemma bit_P_setZN:
  "bit (P (setZN c v)) n \<longleftrightarrow>
     (if n = 1 then v = 0 else if n = 7 then bit v 7 else bit (P c) n)"
  by (auto simp add: setZN_def Let_def bit_simps bit_Flag mask80_bit)

lemma bit_P_setZNC:
  "bit (P (setZNC c v k)) n \<longleftrightarrow>
     (if n = 0 then k else if n = 1 then v = 0 else if n = 7 then bit v 7 else bit (P c) n)"
  by (auto simp add: setZNC_def Let_def bit_simps bit_Flag bit_P_setZN)

lemma if_P_update: "(if b then c\<lparr>P := x\<rparr> else c\<lparr>P := y\<rparr>) = c\<lparr>P := (if b then x else y)\<rparr>"
  by simp

lemma ADC_result:
  assumes "t = A c + mem_read m addr + (if P c AND Flag_C \<noteq> 0 then 1 else 0)"
  shows "snd (ADC c m addr) = m
     \<and> A (fst (ADC c m addr)) = t mod 256
     \<and> (P (fst (ADC c m addr)) AND Flag_C \<noteq> 0 \<longleftrightarrow> t > 255)
     \<and> (P (fst (ADC c m addr)) AND Flag_Z \<noteq> 0 \<longleftrightarrow> t mod 256 = 0)
     \<and> (P (fst (ADC c m addr)) AND Flag_N \<noteq> 0 \<longleftrightarrow> (t mod 256) AND 0x80 \<noteq> 0)
     \<and> (P (fst (ADC c m addr)) AND Flag_V \<noteq> 0 \<longleftrightarrow>
           \<not> ((A c XOR mem_read m addr) AND 0x80 \<noteq> 0) \<and> (A c XOR t) AND 0x80 \<noteq> 0)
     \<and> P (fst (ADC c m addr)) AND (Flag_I OR Flag_D OR Flag_B OR Flag_U)
          = P c AND (Flag_I OR Flag_D OR Flag_B OR Flag_U)"
proof -
  let ?v = "mem_read m addr"
  let ?ov = "\<not> ((A c XOR ?v) AND 0x80 \<noteq> 0) \<and> (A c XOR t) AND 0x80 \<noteq> 0"
  have E: "ADC c m addr =
      (setZNC (c\<lparr>P := (if ?ov then P c OR Flag_V else P c AND NOT Flag_V), A := t AND 0xFF\<rparr>)
              (t AND 0xFF) (t > 0xFF), m)"
    unfolding ADC_def Let_def assms if_P_update by simp
  have unch: "P (fst (ADC c m addr)) AND (Flag_I OR Flag_D OR Flag_B OR Flag_U)
          = P c AND (Flag_I OR Flag_D OR Flag_B OR Flag_U)"
    unfolding E by (rule bit_eqI) (auto simp add: bit_simps bit_Flag bit_P_setZNC)
  show ?thesis
    using unch unfolding E flag_bits
    by (auto simp add: bit_P_setZNC bit_simps bit_Flag and_FF_mod mask80_bit)
qed

lemma xor_FF: "0 \<le> v \<Longrightarrow> v \<le> 255 \<Longrightarrow> (v::int) XOR 0xFF = 255 - v"
proof -
  assume a: "0 \<le> v" "v \<le> 255"
  then have tb: "take_bit 8 v = v" by (simp add: take_bit_eq_mod)
  have hi: "n < 8" if "bit v n" for n
    using that bit_take_bit_iff [of 8 v n] tb by simp
  have m: "bit (255::int) n \<longleftrightarrow> n < 8" for n
    using bit_mask_iff [where ?'a = int, of 8 n] by (simp add: mask_eq_exp_minus_1)
  have "v XOR 0xFF = take_bit 8 (NOT v)"
    by (rule bit_eqI) (auto simp add: bit_simps m dest: hi)
  then show ?thesis using tb by (simp add: take_bit_not_eq_mask_diff mask_eq_exp_minus_1)
qed

lemma mem_read_complement:
  "mem_read (m(addr := NOT (m addr))) addr = mem_read m addr XOR 0xFF"
proof -
  have "take_bit 8 (uint (m addr)) = uint (m addr)"
    using uint_bounded [of "m addr"] by (simp add: take_bit_eq_mod)
  then have "uint (NOT (m addr)) = 255 - uint (m addr)"
    by (simp add: unsigned_not_eq take_bit_not_eq_mask_diff mask_eq_exp_minus_1)
  then show ?thesis
    using xor_FF [of "mem_read m addr"] by (simp add: mem_read_bounds) (simp add: mem_read_def)
qed

lemma bit7_mod: "bit (x::int) 7 \<longleftrightarrow> 128 \<le> x mod 256"
proof -
  have "bit x 7 \<longleftrightarrow> bit (take_bit 8 x) 7" by (simp add: bit_take_bit_iff)
  also have "\<dots> \<longleftrightarrow> odd ((x mod 256) div 128)" by (simp add: bit_iff_odd take_bit_eq_mod)
  also have "\<dots> \<longleftrightarrow> 128 \<le> x mod 256"
  proof -
    have "odd (y div 128) \<longleftrightarrow> 128 \<le> y" if "0 \<le> y" "y < 256" for y :: int
      using that by presburger
    then show ?thesis by simp
  qed
  finally show ?thesis .
qed

lemma SBC_as_ADC:
  "fst (SBC c m addr) = fst (ADC c (m(addr := NOT (m addr))) addr) \<and> snd (SBC c m addr) = m"
  by (simp add: SBC_def ADC_def Let_def mem_read_complement)

lemma overflow_signed:
  assumes "0 \<le> a" "a \<le> 255" "0 \<le> v" "v \<le> 255" "cin = 0 \<or> cin = 1"
  shows "(\<not> ((a XOR v) AND 0x80 \<noteq> 0) \<and> (a XOR (a + v + cin)) AND 0x80 \<noteq> 0) \<longleftrightarrow>
         ((if 128 \<le> a then a - 256 else a) + (if 128 \<le> v then v - 256 else v) + cin < -128
          \<or> (if 128 \<le> a then a - 256 else a) + (if 128 \<le> v then v - 256 else v) + cin > (127::int))"
proof -
  have ba: "bit a 7 \<longleftrightarrow> 128 \<le> a" using assms by (simp add: bit7_mod)
  have bv: "bit v 7 \<longleftrightarrow> 128 \<le> v" using assms by (simp add: bit7_mod)
  have tm: "(a + v + cin) mod 256 = (if a + v + cin < 256 then a + v + cin else a + v + cin - 256)"
  proof (cases "a + v + cin < 256")
    case True
    moreover have "0 \<le> a + v + cin" using assms by auto
    ultimately show ?thesis by (simp add: mod_pos_pos_trivial)
  next
    case False
    then have "0 \<le> a + v + cin - 256" "a + v + cin - 256 < 256" using assms by auto
    then have "(a + v + cin - 256) mod 256 = a + v + cin - 256" by (rule mod_pos_pos_trivial)
    moreover have "(a + v + cin - 256) mod 256 = (a + v + cin) mod 256" by (rule minus_mod_self2)
    ultimately show ?thesis using False by simp
  qed
  have bt: "bit (a + v + cin) 7 \<longleftrightarrow> 128 \<le> (if a + v + cin < 256 then a + v + cin else a + v + cin - 256)"
    unfolding bit7_mod tm ..
  show ?thesis
    unfolding mask80_bit bit_xor_iff ba bv bt using assms by auto
qed


text \<open>
  Claim C4. Let the accumulator be in range, \<open>v\<close> the operand byte at an address inside
  the memory and \<open>cin\<close> the incoming carry as 0 or 1. ADC leaves memory alone and sets the accumulator to
  \<open>A + v + cin\<close> modulo 256, whatever the Decimal flag; afterwards Carry is set exactly
  when the sum exceeds 255, Overflow exactly when the sign-mismatch formula of the source
  holds, which is exactly when the sum of the operands read as signed bytes leaves
  \<open>-128 .. 127\<close>, Zero and Negative follow the new accumulator, and the other four
  flags keep their value. SBC is ADC on the complemented operand byte: the accumulator
  becomes \<open>A - v - (1 - cin)\<close> modulo 256 and Carry is set exactly when no borrow occurred.
\<close>

theorem ADC_SBC_arithmetic:
  assumes "0 \<le> A c" "A c \<le> 0xFF"
    and "v = mem_read m addr"
    and "cin = (if P c AND Flag_C \<noteq> 0 then 1 else 0)"
    and "in_memory addr"
  shows "snd (ADC c m addr) = m
     \<and> A (fst (ADC c m addr)) = (A c + v + cin) mod 256
     \<and> (P (fst (ADC c m addr)) AND Flag_C \<noteq> 0 \<longleftrightarrow> A c + v + cin > 255)
     \<and> (P (fst (ADC c m addr)) AND Flag_V \<noteq> 0 \<longleftrightarrow>
           \<not> ((A c XOR v) AND 0x80 \<noteq> 0) \<and> (A c XOR (A c + v + cin)) AND 0x80 \<noteq> 0)
     \<and> (P (fst (ADC c m addr)) AND Flag_V \<noteq> 0 \<longleftrightarrow>
           (if 128 \<le> A c then A c - 256 else A c) + (if 128 \<le> v then v - 256 else v) + cin < -128
           \<or> (if 128 \<le> A c then A c - 256 else A c) + (if 128 \<le> v then v - 256 else v) + cin > 127)
     \<and> (P (fst (ADC c m addr)) AND Flag_Z \<noteq> 0 \<longleftrightarrow> (A c + v + cin) mod 256 = 0)
     \<and> (P (fst (ADC c m addr)) AND Flag_N \<noteq> 0 \<longleftrightarrow> 128 \<le> (A c + v + cin) mod 256)
     \<and> P (fst (ADC c m addr)) AND (Flag_I OR Flag_D OR Flag_B OR Flag_U)
           = P c AND (Flag_I OR Flag_D OR Flag_B OR Flag_U)
     \<and> fst (SBC c m addr) = fst (ADC c (m(addr := NOT (m addr))) addr)
     \<and> snd (SBC c m addr) = m
     \<and> A (fst (SBC c m addr)) = (A c - v - (1 - cin)) mod 256
     \<and> (P (fst (SBC c m addr)) AND Flag_C \<noteq> 0 \<longleftrightarrow> 0 \<le> A c - v - (1 - cin))"
proof -
  have t: "A c + v + cin = A c + mem_read m addr + (if P c AND Flag_C \<noteq> 0 then 1 else 0)"
    using assms by simp
  have v: "0 \<le> v" "v \<le> 255" using assms by (simp_all add: mem_read_bounds)
  have cin: "cin = 0 \<or> cin = 1" using assms by simp
  note adc = ADC_result [OF t]
  have n: "((A c + v + cin) mod 256 AND 0x80 \<noteq> 0) \<longleftrightarrow> 128 \<le> (A c + v + cin) mod 256"
    unfolding mask80_bit bit7_mod by simp
  have ov: "(P (fst (ADC c m addr)) AND Flag_V \<noteq> 0) \<longleftrightarrow>
           (if 128 \<le> A c then A c - 256 else A c) + (if 128 \<le> v then v - 256 else v) + cin < -128
           \<or> (if 128 \<le> A c then A c - 256 else A c) + (if 128 \<le> v then v - 256 else v) + cin > 127"
    using adc overflow_signed [OF assms(1,2) v cin] assms(3) by simp
  let ?m' = "m(addr := NOT (m addr))"
  have v': "mem_read ?m' addr = 255 - v"
    using v assms(3) by (simp add: mem_read_complement xor_FF)
  have t': "A c - v - (1 - cin) + 256 = A c + mem_read ?m' addr + (if P c AND Flag_C \<noteq> 0 then 1 else 0)"
    using assms(4) v' by simp
  note sbc = ADC_result [OF t', unfolded SBC_as_ADC [THEN conjunct1, symmetric]]
  from sbc have "A (fst (SBC c m addr)) = (A c - v - (1 - cin) + 256) mod 256"
    by blast
  also have "\<dots> = (A c - v - (1 - cin)) mod 256"
    by (rule mod_add_self2)
  finally have sa: "A (fst (SBC c m addr)) = (A c - v - (1 - cin)) mod 256" .
  from sbc have "(P (fst (SBC c m addr)) AND Flag_C \<noteq> 0) \<longleftrightarrow> A c - v - (1 - cin) + 256 > 255"
    by blast
  then have sc: "(P (fst (SBC c m addr)) AND Flag_C \<noteq> 0) \<longleftrightarrow> 0 \<le> A c - v - (1 - cin)"
    by auto
  show ?thesis
    using adc n ov sa sc SBC_as_ADC [of c m addr] assms(3) by simp
qed

theorem ADC_SBC_arithmetic_witness:
  "fst (ADC \<lparr>A = 0x7F, X = 0, Y = 0, PC = 0x202, SP = 0xFD, P = 0x24, cycles = 0, halted = False\<rparr>
            ((\<lambda>_. 0)(0x201 := 1)) 0x201)
     = \<lparr>A = 0x80, X = 0, Y = 0, PC = 0x202, SP = 0xFD, P = 0xE4, cycles = 0, halted = False\<rparr>
   \<and> fst (ADC \<lparr>A = 0xFF, X = 0, Y = 0, PC = 0x202, SP = 0xFD, P = 0x24, cycles = 0, halted = False\<rparr>
            ((\<lambda>_. 0)(0x201 := 1)) 0x201)
     = \<lparr>A = 0x00, X = 0, Y = 0, PC = 0x202, SP = 0xFD, P = 0x27, cycles = 0, halted = False\<rparr>
   \<and> fst (SBC \<lparr>A = 0x50, X = 0, Y = 0, PC = 0x202, SP = 0xFD, P = 0x25, cycles = 0, halted = False\<rparr>
            ((\<lambda>_. 0)(0x201 := 0xF0)) 0x201)
     = \<lparr>A = 0x60, X = 0, Y = 0, PC = 0x202, SP = 0xFD, P = 0x24, cycles = 0, halted = False\<rparr>"
  using
    ADC_SBC_arithmetic [of "\<lparr>A = 0x7F, X = 0, Y = 0, PC = 0x202, SP = 0xFD, P = 0x24,
      cycles = 0, halted = False\<rparr>" 1 "(\<lambda>_. 0)(0x201 := 1)" "0x201" 0]
    ADC_SBC_arithmetic [of "\<lparr>A = 0xFF, X = 0, Y = 0, PC = 0x202, SP = 0xFD, P = 0x24,
      cycles = 0, halted = False\<rparr>" 1 "(\<lambda>_. 0)(0x201 := 1)" "0x201" 0]
    ADC_SBC_arithmetic [of "\<lparr>A = 0x50, X = 0, Y = 0, PC = 0x202, SP = 0xFD, P = 0x25,
      cycles = 0, halted = False\<rparr>" "0xF0" "(\<lambda>_. 0)(0x201 := 0xF0)" "0x201" 1]
  by (simp add: ADC_def SBC_def setZNC_def setZN_def mem_read_def Flag_defs in_memory_def
      MEMORY_SIZE_def)

section \<open>Operand fetch and the indirect mode\<close>

lemma and_FF00: "0 \<le> p \<Longrightarrow> p < 65536 \<Longrightarrow> (p::int) AND 0xFF00 = p - p mod 256"
proof -
  assume a: "0 \<le> p" "p < 65536"
  have c: "(0xFF00::int) = push_bit 8 (mask 8)"
    by (simp add: mask_eq_exp_minus_1 push_bit_eq_mult)
  have "p AND push_bit 8 (mask 8) = push_bit 8 (take_bit 8 (drop_bit 8 p))"
    by (rule bit_eqI) (auto simp add: bit_simps)
  also have "\<dots> = 256 * ((p div 256) mod 256)"
    by (simp add: push_bit_eq_mult take_bit_eq_mod drop_bit_eq_div)
  also have "(p div 256) mod 256 = p div 256"
    using a by (simp add: mod_pos_pos_trivial pos_imp_zdiv_nonneg_iff)
  also have "256 * (p div 256) = p - p mod 256"
    by (simp add: minus_mod_eq_mult_div)
  finally show ?thesis by (simp only: c)
qed

lemma fetchByte_eq: "fetchByte c m = (mem_read m (PC c), c\<lparr>PC := (PC c + 1) mod 65536\<rparr>)"
  by (simp add: fetchByte_def Let_def and_FFFF_mod)

lemma fetchWord_eq:
  "fetchWord c m =
     (256 * mem_read m ((PC c + 1) mod 65536) + mem_read m (PC c),
      c\<lparr>PC := (PC c + 2) mod 65536\<rparr>)"
  by (simp add: fetchWord_def fetchByte_eq Let_def join_bytes mem_read_bounds
      mod_add_left_eq mod_add_right_eq add.commute)

lemma word_bounds:
  "0 \<le> 256 * mem_read m a + mem_read m b" "256 * mem_read m a + mem_read m b < 65536"
  using mem_read_bounds [of m a] mem_read_bounds [of m b] by auto

text \<open>
  Claim C3. Let the program counter be in range and \<open>ptr\<close> the little-endian word that
  the indirect mode fetches there. It is a 16-bit value; the resolved address has its low byte from
  \<open>ptr\<close> and its high byte from the start of the page of \<open>ptr\<close> when the low byte of
  \<open>ptr\<close> is \<open>0xFF\<close> (there \<open>ptr & 0xFF00 = ptr - 255\<close>), and from \<open>ptr + 1\<close>
  otherwise; the mode reports no page crossing and advances the program counter by two.
  With the pointer \<open>0x30FF\<close>, \<open>0x80\<close> at \<open>0x30FF\<close>, \<open>0x40\<close> at \<open>0x3000\<close> and
  \<open>0x50\<close> at \<open>0x3100\<close> the address is \<open>0x4080\<close>.
\<close>

theorem IND_page_wrap:
  assumes "0 \<le> PC c" "PC c \<le> 0xFFFF"
    and "ptr = mem_read m (PC c) + 256 * mem_read m ((PC c + 1) mod 65536)"
  shows "0 \<le> ptr \<and> ptr \<le> 0xFFFF
     \<and> address (fst (IND c m)) =
          mem_read m ptr + 256 * mem_read m (if ptr mod 256 = 255 then ptr - 255 else ptr + 1)
     \<and> pageCrossed (fst (IND c m)) = None
     \<and> snd (IND c m) = c\<lparr>PC := (PC c + 2) mod 65536\<rparr>"
proof -
  have p: "0 \<le> ptr" "ptr < 65536"
    using word_bounds [of m "(PC c + 1) mod 65536" "PC c"] assms(3) by simp_all
  have w: "fetchWord c m = (ptr, c\<lparr>PC := (PC c + 2) mod 65536\<rparr>)"
    by (simp add: fetchWord_eq assms(3))
  have page: "ptr AND 0xFF00 = ptr - ptr mod 256"
    using p by (rule and_FF00)
  show ?thesis
    using p by (simp add: IND_def w Let_def and_FF_mod page join_bytes' mem_read_bounds)
qed


theorem IND_page_wrap_witness:
  "address (fst (IND \<lparr>A = 0, X = 0, Y = 0, PC = 0x1001, SP = 0xFD, P = 0x24, cycles = 0,
                      halted = False\<rparr>
                 ((\<lambda>_. 0)(0x1001 := 0xFF, 0x1002 := 0x30, 0x30FF := 0x80, 0x3000 := 0x40,
                           0x3100 := 0x50))))
     = 0x4080
   \<and> PC (snd (IND \<lparr>A = 0, X = 0, Y = 0, PC = 0x1001, SP = 0xFD, P = 0x24, cycles = 0,
                      halted = False\<rparr>
                 ((\<lambda>_. 0)(0x1001 := 0xFF, 0x1002 := 0x30, 0x30FF := 0x80, 0x3000 := 0x40,
                           0x3100 := 0x50))))
     = 0x1003"
  using IND_page_wrap [where ptr = "0x30FF"
      and m = "(\<lambda>_. 0)(0x1001 := 0xFF, 0x1002 := 0x30, 0x30FF := 0x80, 0x3000 := 0x40,
                       0x3100 := 0x50)"
      and c = "\<lparr>A = 0, X = 0, Y = 0, PC = 0x1001, SP = 0xFD, P = 0x24, cycles = 0,
                halted = False\<rparr>"]
  by (simp add: mem_read_def)

section \<open>Unknown opcodes\<close>

lemma getInstructionDefinition_FF: "getInstructionDefinition 0xFF = None"
  by (simp add: getInstructionDefinition_def instructionSet_def definitions_def define_entry_def)

lemma step_halted: "halted c \<Longrightarrow> step c m = Inr (c, m)"
  by (simp add: step_def)

text \<open>
  Claim C2. From a running state whose program counter is in range and points at a byte
  without an entry in the instruction table, a step returns the same processor state
  with only the halted flag set, so the program counter is the address of that opcode,
  and returns the memory as it was. A step from a halted state, this one or any other,
  returns the state and the memory unchanged.
\<close>

theorem unknown_opcode_halts:
  assumes "\<not> halted c" "0 \<le> PC c" "PC c \<le> 0xFFFF"
    and "getInstructionDefinition (mem_read m (PC c)) = None"
  shows "step c m = Inr (c\<lparr>halted := True\<rparr>, m)
       \<and> step (c\<lparr>halted := True\<rparr>) m = Inr (c\<lparr>halted := True\<rparr>, m)
       \<and> (\<forall>c' m'. halted c' \<longrightarrow> step c' m' = Inr (c', m'))"
  using assms
  by (simp add: step_def mem_index_def in_memory_def MEMORY_SIZE_def mem_read_def Let_def)

theorem unknown_opcode_halts_witness:
  "step \<lparr>A = 1, X = 2, Y = 3, PC = 0x1000, SP = 0xFD, P = 0x24, cycles = 5, halted = False\<rparr>
        ((\<lambda>_. 0)(0x1000 := 0xFF))
     = Inr (\<lparr>A = 1, X = 2, Y = 3, PC = 0x1000, SP = 0xFD, P = 0x24, cycles = 5, halted = True\<rparr>,
            (\<lambda>_. 0)(0x1000 := 0xFF))
   \<and> step \<lparr>A = 1, X = 2, Y = 3, PC = 0x1000, SP = 0xFD, P = 0x24, cycles = 5, halted = True\<rparr>
        ((\<lambda>_. 0)(0x1000 := 0xFF))
     = Inr (\<lparr>A = 1, X = 2, Y = 3, PC = 0x1000, SP = 0xFD, P = 0x24, cycles = 5, halted = True\<rparr>,
            (\<lambda>_. 0)(0x1000 := 0xFF))"
  using unknown_opcode_halts [of
      "\<lparr>A = 1, X = 2, Y = 3, PC = 0x1000, SP = 0xFD, P = 0x24, cycles = 5, halted = False\<rparr>"
      "(\<lambda>_. 0)(0x1000 := 0xFF)"]
  by (simp add: mem_read_def getInstructionDefinition_FF)


section \<open>Branches\<close>

lemma define_entry_fields:
  "opCode (define_entry oc mn am ex b bc pcc brc) = oc"
  "mnemonic (define_entry oc mn am ex b bc pcc brc) = mn"
  "addressingMode (define_entry oc mn am ex b bc pcc brc) = am"
  "execute (define_entry oc mn am ex b bc pcc brc) = ex"
  "bytes (define_entry oc mn am ex b bc pcc brc) = b"
  "baseCycles (define_entry oc mn am ex b bc pcc brc) = bc"
  "pageCrossCycle (define_entry oc mn am ex b bc pcc brc) = pcc"
  "branchCycle (define_entry oc mn am ex b bc pcc brc) = brc"
  by (simp_all add: define_entry_def)

lemma getInstructionDefinition_F0:
  "getInstructionDefinition 0xF0 = Some (define_entry 0xF0 ''BEQ'' (Some AM_REL) BEQ 2 2 False True)"
  by (simp add: getInstructionDefinition_def instructionSet_def definitions_def
      define_entry_fields)

lemma genericBranch_not_taken: "genericBranch c m off False = (c, m)"
  by (simp add: genericBranch_def)

lemma genericBranch_taken:
  "genericBranch c m off True =
     (c\<lparr>PC := (if in_memory off then (PC c + mem_read m off) mod 65536 else 0),
        cycles := cycles c + (if PC c AND 0xFF00 \<noteq>
                                 (if in_memory off then (PC c + mem_read m off) mod 65536 else 0) AND 0xFF00
                              then 2 else 1)\<rparr>, m)"
  by (simp add: genericBranch_def mem_index_def mem_read_def Let_def and_FFFF_mod)

text \<open>
  Claim C1 says that a taken branch adds the signed offset resolved by the relative mode
  to the program counter, with one extra cycle and a second one when the page changes,
  and that a branch not taken changes nothing. The second half holds
  (\<open>genericBranch_not_taken\<close>). For a taken branch the source adds the memory cell
  whose index is the offset, not the offset (\<open>genericBranch_taken\<close>). With the Zero flag
  set, the program counter at \<open>0x10F0\<close>, the offset \<open>0x20\<close> and a zeroed memory, BEQ leaves
  the program counter at \<open>0x10F0\<close> and adds one cycle, where the claim and the tests of
  the repository expect \<open>0x1110\<close> and two cycles; a whole step on the bytes \<open>F0 20\<close> at
  \<open>0x10EE\<close> ends at \<open>0x10F0\<close> after 3 cycles instead of \<open>0x1110\<close> after 4. With the
  offset \<open>-16\<close> the read is outside the array and the program counter becomes 0.
\<close>

theorem branch_adds_memory_cell_not_offset:
  "BEQ \<lparr>A = 0, X = 0, Y = 0, PC = 0x10F0, SP = 0xFD, P = 0x22, cycles = 0, halted = False\<rparr>
       (\<lambda>_. 0) 0x20
     = (\<lparr>A = 0, X = 0, Y = 0, PC = 0x10F0, SP = 0xFD, P = 0x22, cycles = 1, halted = False\<rparr>,
        \<lambda>_. 0)
   \<and> step \<lparr>A = 0, X = 0, Y = 0, PC = 0x10EE, SP = 0xFD, P = 0x22, cycles = 0, halted = False\<rparr>
          ((\<lambda>_. 0)(0x10EE := 0xF0, 0x10EF := 0x20))
     = Inr (\<lparr>A = 0, X = 0, Y = 0, PC = 0x10F0, SP = 0xFD, P = 0x22, cycles = 3, halted = False\<rparr>,
            (\<lambda>_. 0)(0x10EE := 0xF0, 0x10EF := 0x20))
   \<and> BEQ \<lparr>A = 0, X = 0, Y = 0, PC = 0x1000, SP = 0xFD, P = 0x22, cycles = 0, halted = False\<rparr>
       (\<lambda>_. 0) (- 16)
     = (\<lparr>A = 0, X = 0, Y = 0, PC = 0, SP = 0xFD, P = 0x22, cycles = 2, halted = False\<rparr>,
        \<lambda>_. 0)"
  by (simp add: step_def getInstructionDefinition_F0 define_entry_fields REL_def fetchByte_def
      BEQ_def genericBranch_def mem_index_def mem_read_def in_memory_def MEMORY_SIZE_def
      Flag_defs)

section \<open>Reset\<close>

lemma resetCPU_fields:
  "A (resetCPU m la) = 0 \<and> X (resetCPU m la) = 0 \<and> Y (resetCPU m la) = 0
   \<and> SP (resetCPU m la) = 0xFD \<and> P (resetCPU m la) = (Flag_U OR Flag_I)
   \<and> cycles (resetCPU m la) = 0 \<and> \<not> halted (resetCPU m la)
   \<and> PC (resetCPU m la) =
        (if la = None \<or> la = Some 0
         then mem_read m RESET_VECTOR_ADDRESS + 256 * mem_read m (RESET_VECTOR_ADDRESS + 1)
         else the la)"
  by (auto simp add: resetCPU_def initialCPUState_def Let_def mem_index_def in_memory_def
      MEMORY_SIZE_def RESET_VECTOR_ADDRESS_def join_bytes mem_read_bounds split: option.splits)

text \<open>
  Claim C7 says that reset sets the program counter to the explicit load address when
  one is supplied and to the reset vector otherwise, with the stack pointer at \<open>0xFD\<close>,
  the Interrupt-Disable and unused flags set, the halted flag clear and the cycle counter
  zero. The fields other than the program counter are as claimed
  (\<open>resetCPU_fields\<close>), and so is the program counter for a missing and for a nonzero
  load address. The load address 0 is taken for a missing one: with \<open>0x34\<close>, \<open>0x12\<close> in
  the reset vector, a reset to the supplied address 0 sets the program counter to
  \<open>0x1234\<close>.
\<close>

theorem resetCPU_zero_override_ignored:
  "resetCPU ((\<lambda>_. 0)(0xFFFC := 0x34, 0xFFFD := 0x12)) (Some 0)
     = \<lparr>A = 0, X = 0, Y = 0, PC = 0x1234, SP = 0xFD, P = 0x24, cycles = 0, halted = False\<rparr>
   \<and> resetCPU ((\<lambda>_. 0)(0xFFFC := 0x34, 0xFFFD := 0x12)) (Some 0x0200)
     = \<lparr>A = 0, X = 0, Y = 0, PC = 0x0200, SP = 0xFD, P = 0x24, cycles = 0, halted = False\<rparr>
   \<and> resetCPU ((\<lambda>_. 0)(0xFFFC := 0x34, 0xFFFD := 0x12)) None
     = \<lparr>A = 0, X = 0, Y = 0, PC = 0x1234, SP = 0xFD, P = 0x24, cycles = 0, halted = False\<rparr>"
  by (simp add: resetCPU_def initialCPUState_def mem_index_def mem_read_def in_memory_def
      MEMORY_SIZE_def RESET_VECTOR_ADDRESS_def DEFAULT_PROGRAM_LOAD_ADDRESS_def Flag_defs)
section \<open>The disassembler is a read-only walk\<close>

lemma disassembleAt_state: "snd (disassembleAt em a) = em"
  by (simp add: disassembleAt_def Let_def split: option.splits sum.splits)

lemma disassembleAt_pair: "disassembleAt em a = (fst (disassembleAt em a), em)"
  using disassembleAt_state [of em a] by (metis prod.collapse)

lemma disassembleAt_cells:
  assumes "\<forall>i. in_memory i \<longrightarrow> em_memory em' i = em_memory em i"
  shows "fst (disassembleAt em' a) = fst (disassembleAt em a)"
proof -
  have idx: "mem_index (em_memory em') i = mem_index (em_memory em) i" for i
    using assms by (simp add: mem_index_def)
  show ?thesis
  proof (cases "in_memory a")
    case False
    then show ?thesis by (simp add: disassembleAt_def mem_index_def)
  next
    case True
    have rd: "(if a + j < MEMORY_SIZE then mem_read (em_memory em') (a + j) else 0)
            = (if a + j < MEMORY_SIZE then mem_read (em_memory em) (a + j) else 0)"
      if "1 \<le> j" for j
      using assms True that by (simp add: mem_read_def in_memory_def)
    have bs: "map (\<lambda>j. if a + j < MEMORY_SIZE then mem_read (em_memory em') (a + j) else 0) [1 .. k]
            = map (\<lambda>j. if a + j < MEMORY_SIZE then mem_read (em_memory em) (a + j) else 0) [1 .. k]"
      for k
      by (rule map_cong) (simp_all add: rd)
    show ?thesis
      by (simp add: disassembleAt_def idx bs Let_def split: option.splits sum.splits)
  qed
qed

lemma disassembleLoop_stop:
  "\<not> (i < count \<and> a < MEMORY_SIZE) \<Longrightarrow> disassembleLoop em count i a acc = (Inr acc, em)"
  by (subst disassembleLoop.simps) auto

lemma disassembleLoop_go:
  "i < count \<Longrightarrow> a < MEMORY_SIZE \<Longrightarrow>
   disassembleLoop em count i a acc =
     (case fst (disassembleAt em a) of
        Inl e \<Rightarrow> (Inl e, em)
      | Inr (info, len) \<Rightarrow> disassembleLoop em count (i + 1) (a + len) (acc @ [info]))"
  by (subst disassembleLoop.simps, subst disassembleAt_pair)
     (simp split: sum.splits prod.splits)

lemma disassembleLoop_state: "snd (disassembleLoop em count i a acc) = em"
proof (induction "nat (count - i)" arbitrary: i a acc)
  case 0
  then have "\<not> (i < count \<and> a < MEMORY_SIZE)" by simp
  then show ?case by (simp add: disassembleLoop_stop)
next
  case (Suc k)
  then have k: "k = nat (count - (i + 1))" by simp
  show ?case
  proof (cases "i < count \<and> a < MEMORY_SIZE")
    case False
    then show ?thesis by (simp add: disassembleLoop_stop)
  next
    case True
    then show ?thesis
      using Suc.hyps(1) [OF k]
      by (simp add: disassembleLoop_go split: sum.splits prod.splits)
  qed
qed

lemma disassembleLoop_acc:
  "fst (disassembleLoop em count i a acc) =
     (case fst (disassembleLoop em count i a []) of Inl e \<Rightarrow> Inl e | Inr r \<Rightarrow> Inr (acc @ r))"
proof (induction "nat (count - i)" arbitrary: i a acc)
  case 0
  then have "\<not> (i < count \<and> a < MEMORY_SIZE)" by simp
  then show ?case by (simp add: disassembleLoop_stop)
next
  case (Suc k)
  then have k: "k = nat (count - (i + 1))" by simp
  show ?case
  proof (cases "i < count \<and> a < MEMORY_SIZE")
    case False
    then show ?thesis by (simp add: disassembleLoop_stop)
  next
    case True
    show ?thesis
    proof (cases "fst (disassembleAt em a)")
      case (Inl e)
      then show ?thesis using True by (simp add: disassembleLoop_go)
    next
      case (Inr p)
      obtain info len where p: "p = (info, len)" by (cases p)
      show ?thesis
        using True Inr p Suc.hyps(1) [OF k, of "a + len" "acc @ [info]"]
          Suc.hyps(1) [OF k, of "a + len" "[info]"]
        by (simp add: disassembleLoop_go split: sum.splits)
    qed
  qed
qed

lemma disassembleLoop_shift:
  "disassembleLoop em count i a acc = disassembleLoop em (count - i) 0 a acc"
proof (induction "nat (count - i)" arbitrary: count i a acc)
  case 0
  then have "\<not> (i < count \<and> a < MEMORY_SIZE)" "\<not> (0 < count - i \<and> a < MEMORY_SIZE)"
    by simp_all
  then show ?case by (simp add: disassembleLoop_stop)
next
  case (Suc k)
  have k1: "k = nat (count - (i + 1))" using Suc.hyps(2) by simp
  have k2: "k = nat ((count - i) - (0 + 1))" using Suc.hyps(2) by simp
  have step: "disassembleLoop em count (i + 1) a' acc' = disassembleLoop em (count - i) (0 + 1) a' acc'"
    for a' acc'
    using Suc.hyps(1) [OF k1, of a' acc'] Suc.hyps(1) [OF k2, of a' acc']
    by (simp add: algebra_simps)
  have lt: "i < count" "0 < count - i" using Suc.hyps(2) by simp_all
  show ?case
  proof (cases "a < MEMORY_SIZE")
    case False
    then show ?thesis by (simp add: disassembleLoop_stop)
  next
    case True
    show ?thesis
      using lt True step by (simp add: disassembleLoop_go split: sum.splits)
  qed
qed

lemma disassembleLoop_cells:
  assumes "\<forall>i. in_memory i \<longrightarrow> em_memory em' i = em_memory em i"
  shows "fst (disassembleLoop em' count i a acc) = fst (disassembleLoop em count i a acc)"
proof (induction "nat (count - i)" arbitrary: i a acc)
  case 0
  then have "\<not> (i < count \<and> a < MEMORY_SIZE)" by simp
  then show ?case by (simp add: disassembleLoop_stop)
next
  case (Suc k)
  then have k: "k = nat (count - (i + 1))" by simp
  show ?case
  proof (cases "i < count \<and> a < MEMORY_SIZE")
    case False
    then show ?thesis by (simp add: disassembleLoop_stop)
  next
    case True
    then show ?thesis
      using Suc.hyps(1) [OF k] disassembleAt_cells [OF assms, of a]
      by (simp add: disassembleLoop_go split: sum.splits prod.splits)
  qed
qed

lemma disassembleAt_unknown:
  assumes "in_memory a" "getInstructionDefinition (mem_read (em_memory em) a) = None"
  shows "disassembleAt em a =
     (Inr (\<lparr>info_address = a, info_opCode = mem_read (em_memory em) a, info_mnemonic = ''???'',
            info_operandStr = '''', info_bytes = [mem_read (em_memory em) a],
            info_text = ''DB $'' @ hex2 (mem_read (em_memory em) a)\<rparr>, 1), em)"
  using assms by (simp add: disassembleAt_def mem_index_def mem_read_def)

text \<open>
  Claim C8. For every emulator, start address and count, \<open>disassemble\<close> hands back the
  emulator it was called on, processor state and memory, also when it fails; a second
  call with the same arguments on the emulator the first one left returns the same
  output. The output is determined by the arguments and the cells of the memory alone:
  two emulators whose memories agree on the cells \<open>0 .. 0xFFFF\<close> give the same output,
  whatever their processor states. At an address inside the memory whose byte has no
  table entry the walk produces the one-byte record with mnemonic \<open>???\<close>, no operand,
  the byte itself as its only byte and the text \<open>DB $\<close> followed by the byte in two
  hexadecimal digits, and continues one byte further: when at least one record is asked
  for, the output is this record followed by the disassembly from the next address with
  one record less, and it fails exactly where that one fails.
\<close>

theorem disassemble_pure_and_placeholder:
  "snd (disassemble em a n) = em
   \<and> fst (disassemble (snd (disassemble em a n)) a n) = fst (disassemble em a n)
   \<and> ((\<forall>i. in_memory i \<longrightarrow> em_memory em' i = em_memory em i) \<longrightarrow>
        fst (disassemble em' a n) = fst (disassemble em a n))
   \<and> (in_memory a \<and> getInstructionDefinition (mem_read (em_memory em) a) = None \<longrightarrow>
        disassembleAt em a =
          (Inr (\<lparr>info_address = a, info_opCode = mem_read (em_memory em) a,
                 info_mnemonic = ''???'', info_operandStr = '''',
                 info_bytes = [mem_read (em_memory em) a],
                 info_text = ''DB $'' @ hex2 (mem_read (em_memory em) a)\<rparr>, 1), em)
        \<and> (0 < n \<longrightarrow>
             fst (disassemble em a n) =
               (case fst (disassemble em (a + 1) (n - 1)) of
                  Inl e \<Rightarrow> Inl e
                | Inr rest \<Rightarrow>
                    Inr (\<lparr>info_address = a, info_opCode = mem_read (em_memory em) a,
                          info_mnemonic = ''???'', info_operandStr = '''',
                          info_bytes = [mem_read (em_memory em) a],
                          info_text = ''DB $'' @ hex2 (mem_read (em_memory em) a)\<rparr> # rest))))"
proof -
  have state: "snd (disassemble em a n) = em"
    by (simp add: disassemble_def disassembleLoop_state)
  have cells: "fst (disassemble em' a n) = fst (disassemble em a n)"
    if "\<forall>i. in_memory i \<longrightarrow> em_memory em' i = em_memory em i"
    using that by (simp add: disassemble_def disassembleLoop_cells)
  have walk: "fst (disassemble em a n) =
               (case fst (disassemble em (a + 1) (n - 1)) of
                  Inl e \<Rightarrow> Inl e
                | Inr rest \<Rightarrow>
                    Inr (\<lparr>info_address = a, info_opCode = mem_read (em_memory em) a,
                          info_mnemonic = ''???'', info_operandStr = '''',
                          info_bytes = [mem_read (em_memory em) a],
                          info_text = ''DB $'' @ hex2 (mem_read (em_memory em) a)\<rparr> # rest))"
    if "in_memory a" "getInstructionDefinition (mem_read (em_memory em) a) = None" "0 < n"
  proof -
    have lt: "a < MEMORY_SIZE" using that(1) by (simp add: in_memory_def)
    show ?thesis
      unfolding disassemble_def
      using that(3) lt disassembleLoop_shift [of em n 1 "a + 1" "[]"]
      by (subst disassembleLoop_go, simp, simp, simp add: disassembleAt_unknown [OF that(1,2)],
          subst disassembleLoop_acc)
         (simp split: sum.splits)
  qed
  show ?thesis
    using state cells walk disassembleAt_unknown by (simp add: state)
qed

lemma getInstructionDefinition_A9:
  "getInstructionDefinition 0xA9 = Some (define_entry 0xA9 ''LDA'' (Some AM_IMM) LDA 2 2 False False)"
  by (simp add: getInstructionDefinition_def instructionSet_def definitions_def
      define_entry_fields)

theorem disassemble_pure_and_placeholder_witness:
  "in_memory 0xFFFE
   \<and> getInstructionDefinition
        (mem_read (em_memory \<lparr>em_cpu = initialCPUState,
                              em_memory = (\<lambda>_. 0)(0xFFFE := 0xFF, 0xFFFF := 0xF0)\<rparr>) 0xFFFE) = None
   \<and> disassemble \<lparr>em_cpu = initialCPUState,
                   em_memory = (\<lambda>_. 0)(0xFFFE := 0xFF, 0xFFFF := 0xF0)\<rparr> 0xFFFE 2
     = (Inr [\<lparr>info_address = 0xFFFE, info_opCode = 0xFF, info_mnemonic = ''???'',
               info_operandStr = [], info_bytes = [0xFF], info_text = ''DB $ff''\<rparr>,
             \<lparr>info_address = 0xFFFF, info_opCode = 0xF0, info_mnemonic = ''BEQ'',
               info_operandStr = ''$0000'', info_bytes = [0xF0, 0],
               info_text = ''BEQ $0000''\<rparr>],
        \<lparr>em_cpu = initialCPUState,
          em_memory = (\<lambda>_. 0)(0xFFFE := 0xFF, 0xFFFF := 0xF0)\<rparr>)
   \<and> fst (disassemble \<lparr>em_cpu = initialCPUState\<lparr>A := 7\<rparr>,
                        em_memory = (\<lambda>_. 0)(0xFFFE := 0xFF, 0xFFFF := 0xF0, 0x10000 := 9)\<rparr>
             0xFFFE 2)
     = fst (disassemble \<lparr>em_cpu = initialCPUState,
                          em_memory = (\<lambda>_. 0)(0xFFFE := 0xFF, 0xFFFF := 0xF0)\<rparr> 0xFFFE 2)
   \<and> fst (disassemble \<lparr>em_cpu = initialCPUState,
                        em_memory = (\<lambda>_. 0)(0x200 := 0xA9, 0x201 := 0x10)\<rparr> 0x200 1)
     = Inr [\<lparr>info_address = 0x200, info_opCode = 0xA9, info_mnemonic = ''LDA'',
              info_operandStr = ''#$10'', info_bytes = [0xA9, 0x10],
              info_text = ''LDA #$10''\<rparr>]"
proof -
  let ?em = "\<lparr>em_cpu = initialCPUState,
              em_memory = (\<lambda>_. 0)(0xFFFE := 0xFF, 0xFFFF := 0xF0)\<rparr>"
  let ?em' = "\<lparr>em_cpu = initialCPUState\<lparr>A := 7\<rparr>,
               em_memory = (\<lambda>_. 0)(0xFFFE := 0xFF, 0xFFFF := 0xF0, 0x10000 := 9)\<rparr>"
  let ?el = "\<lparr>em_cpu = initialCPUState,
              em_memory = (\<lambda>_. 0)(0x200 := 0xA9, 0x201 := 0x10)\<rparr>"
  note T = disassemble_pure_and_placeholder [where em = ?em and a = "0xFFFE" and n = 2
      and em' = ?em']
  have h1: "in_memory 0xFFFE"
    by (simp add: in_memory_def MEMORY_SIZE_def)
  have h2: "getInstructionDefinition (mem_read (em_memory ?em) 0xFFFE) = None"
    by (simp add: mem_read_def getInstructionDefinition_FF)
  have h3: "\<forall>i. in_memory i \<longrightarrow> em_memory ?em' i = em_memory ?em i"
    by (simp add: in_memory_def MEMORY_SIZE_def)
  have at1: "disassembleAt ?em 0xFFFE =
      (Inr (\<lparr>info_address = 0xFFFE, info_opCode = 0xFF, info_mnemonic = ''???'',
               info_operandStr = [], info_bytes = [0xFF], info_text = ''DB $ff''\<rparr>, 1), ?em)"
    using T h1 h2
    by (simp add: mem_read_def hex2_def padStart_def toString16.simps hexDigit_def)
  have r3: "replicate 3 CHR ''0'' = ''000''"
    by (simp add: numeral_3_eq_3)
  have at2: "disassembleAt ?em 0xFFFF =
      (Inr (\<lparr>info_address = 0xFFFF, info_opCode = 0xF0, info_mnemonic = ''BEQ'',
               info_operandStr = ''$0000'', info_bytes = [0xF0, 0],
               info_text = ''BEQ $0000''\<rparr>, 2), ?em)"
    by (simp add: disassembleAt_def getInstructionDefinition_F0 define_entry_fields
        operandStr2_def mem_index_def mem_read_def in_memory_def MEMORY_SIZE_def hex4_def
        padStart_def toString16.simps hexDigit_def r3)
  have at3: "disassembleAt ?el 0x200 =
      (Inr (\<lparr>info_address = 0x200, info_opCode = 0xA9, info_mnemonic = ''LDA'',
              info_operandStr = ''#$10'', info_bytes = [0xA9, 0x10],
              info_text = ''LDA #$10''\<rparr>, 2), ?el)"
    by (simp add: disassembleAt_def getInstructionDefinition_A9 define_entry_fields
        operandStr2_def mem_index_def mem_read_def in_memory_def MEMORY_SIZE_def hex2_def
        padStart_def toString16.simps hexDigit_def)
  have e: "disassemble ?em 0xFFFE 2 =
     (Inr [\<lparr>info_address = 0xFFFE, info_opCode = 0xFF, info_mnemonic = ''???'',
               info_operandStr = [], info_bytes = [0xFF], info_text = ''DB $ff''\<rparr>,
             \<lparr>info_address = 0xFFFF, info_opCode = 0xF0, info_mnemonic = ''BEQ'',
               info_operandStr = ''$0000'', info_bytes = [0xF0, 0],
               info_text = ''BEQ $0000''\<rparr>], ?em)"
    by (simp add: disassemble_def disassembleLoop_go disassembleLoop_stop at1 at2
        MEMORY_SIZE_def)
  have l: "fst (disassemble ?el 0x200 1) =
     Inr [\<lparr>info_address = 0x200, info_opCode = 0xA9, info_mnemonic = ''LDA'',
              info_operandStr = ''#$10'', info_bytes = [0xA9, 0x10],
              info_text = ''LDA #$10''\<rparr>]"
    by (simp add: disassemble_def disassembleLoop_go disassembleLoop_stop at3 MEMORY_SIZE_def)
  from T h3 have c: "fst (disassemble ?em' 0xFFFE 2) = fst (disassemble ?em 0xFFFE 2)"
    by blast
  show ?thesis
    by (intro conjI h1 h2 e c l)
qed
section \<open>The masking invariant of the engine\<close>

lemma mod_bounds:
  "0 \<le> (x::int) mod 256" "(x::int) mod 256 \<le> 255"
  "0 \<le> (x::int) mod 65536" "(x::int) mod 65536 \<le> 65535"
proof -
  have "x mod 256 < 256" "x mod 65536 < 65536" by simp_all
  then show "x mod 256 \<le> 255" "x mod 65536 \<le> 65535" by linarith+
qed simp_all

lemma byte_ops_bounds:
  assumes "0 \<le> a" "a \<le> 255" "0 \<le> b" "b \<le> 255"
  shows "0 \<le> a AND b" "a AND b \<le> 255" "0 \<le> a OR b" "a OR b \<le> 255"
    "0 \<le> a XOR b" "a XOR b \<le> (255::int)"
proof -
  have lt: "a < 2 ^ 8" "b < 2 ^ 8" using assms by simp_all
  show "0 \<le> a AND b" using assms by simp
  show "a AND b \<le> 255" using AND_upper1 [of a b] assms by linarith
  show "0 \<le> a OR b" using assms by simp
  show "a OR b \<le> 255" using OR_upper [OF assms(1) lt] by simp
  show "0 \<le> a XOR b" using assms by simp
  show "a XOR b \<le> 255" using XOR_upper [OF assms(1) lt] by simp
qed

lemma rir_setZN [simp]: "registers_in_range (setZN c v) = registers_in_range c"
  by (simp add: registers_in_range_def)

lemma rir_setZNC [simp]: "registers_in_range (setZNC c v k) = registers_in_range c"
  by (simp add: registers_in_range_def)

lemma rir_P_cycles [simp]:
  "registers_in_range (c\<lparr>P := p\<rparr>) = registers_in_range c"
  "registers_in_range (c\<lparr>cycles := n\<rparr>) = registers_in_range c"
  "registers_in_range (c\<lparr>halted := h\<rparr>) = registers_in_range c"
  by (simp_all add: registers_in_range_def)

lemma rir_pushByte: "registers_in_range c \<Longrightarrow> registers_in_range (fst (pushByte c m v))"
  by (simp add: pushByte_def Let_def registers_in_range_def and_FF_mod mod_bounds)

lemma rir_pullByte: "registers_in_range c \<Longrightarrow> registers_in_range (snd (pullByte c m))"
  by (simp add: pullByte_def Let_def registers_in_range_def and_FF_mod mod_bounds)

lemma rir_pushWord: "registers_in_range c \<Longrightarrow> registers_in_range (fst (pushWord c m v))"
  by (simp add: pushWord_def Let_def split_def rir_pushByte)

lemma rir_pullWord: "registers_in_range (snd (pullWord c m))" if "registers_in_range c"
  using that by (simp add: pullWord_eq registers_in_range_def mod_bounds)

lemma pullWord_bounds: "0 \<le> fst (pullWord c m)" "fst (pullWord c m) \<le> 65535"
  using word_bounds [of m "STACK_BASE + (SP c + 2) mod 256" "STACK_BASE + (SP c + 1) mod 256"]
  by (simp_all add: pullWord_eq)

lemma rir_fetchByte: "registers_in_range c \<Longrightarrow> registers_in_range (snd (fetchByte c m))"
  by (simp add: fetchByte_eq registers_in_range_def mod_bounds)

lemma rir_fetchWord: "registers_in_range c \<Longrightarrow> registers_in_range (snd (fetchWord c m))"
  by (simp add: fetchWord_eq registers_in_range_def mod_bounds)

lemma effects_in_range:
  assumes "registers_in_range c"
  shows "registers_in_range (fst (LDA c m a))" "registers_in_range (fst (LDX c m a))"
    "registers_in_range (fst (LDY c m a))" "registers_in_range (fst (STA c m a))"
    "registers_in_range (fst (STX c m a))" "registers_in_range (fst (STY c m a))"
    "registers_in_range (fst (ADC c m a))" "registers_in_range (fst (SBC c m a))"
    "registers_in_range (fst (INC c m a))" "registers_in_range (fst (INX c m a))"
    "registers_in_range (fst (INY c m a))" "registers_in_range (fst (DEC c m a))"
    "registers_in_range (fst (DEX c m a))" "registers_in_range (fst (DEY c m a))"
    "registers_in_range (fst (CMP c m a))" "registers_in_range (fst (CPX c m a))"
    "registers_in_range (fst (CPY c m a))" "registers_in_range (fst (BIT c m a))"
    "registers_in_range (fst (ASL_A c m a))" "registers_in_range (fst (ASL_M c m a))"
    "registers_in_range (fst (LSR_M c m a))" "registers_in_range (fst (ROL_A c m a))"
    "registers_in_range (fst (ROL_M c m a))" "registers_in_range (fst (ROR_M c m a))"
    "registers_in_range (fst (TAX c m a))" "registers_in_range (fst (TXA c m a))"
    "registers_in_range (fst (TAY c m a))" "registers_in_range (fst (TYA c m a))"
    "registers_in_range (fst (TSX c m a))" "registers_in_range (fst (TXS c m a))"
    "registers_in_range (fst (CLC c m a))" "registers_in_range (fst (SEC c m a))"
    "registers_in_range (fst (CLI c m a))" "registers_in_range (fst (SEI c m a))"
    "registers_in_range (fst (CLD c m a))" "registers_in_range (fst (SED c m a))"
    "registers_in_range (fst (CLV c m a))" "registers_in_range (fst (NOP c m a))"
  using assms
  by (simp_all add: LDA_def LDX_def LDY_def STA_def STX_def STY_def ADC_def SBC_def INC_def
      INX_def INY_def DEC_def DEX_def DEY_def CMP_def CPX_def CPY_def BIT_def ASL_A_def
      ASL_M_def LSR_M_def ROL_A_def ROL_M_def ROR_M_def TAX_def TXA_def TAY_def TYA_def
      TSX_def TXS_def CLC_def SEC_def CLI_def SEI_def CLD_def SED_def CLV_def NOP_def
      Let_def if_P_update)
    (simp_all add: registers_in_range_def and_FF_mod mod_bounds mem_read_bounds)


lemma logic_effects_in_range:
  assumes "registers_in_range c"
  shows "registers_in_range (fst (AND_A c m a))" "registers_in_range (fst (ORA c m a))"
    "registers_in_range (fst (EOR c m a))" "registers_in_range (fst (LSR_A c m a))"
    "registers_in_range (fst (ROR_A c m a))"
proof -
  have a: "0 \<le> A c" "A c \<le> 255" using assms by (simp_all add: registers_in_range_def)
  note b = byte_ops_bounds [OF a mem_read_bounds(1) [of m a] mem_read_bounds(3) [of m a]]
  have h: "0 \<le> A c div 2" "A c div 2 \<le> 255" using a by auto
  have r: "0 \<le> A c div 2 OR 128" "A c div 2 OR 128 \<le> 255"
    using byte_ops_bounds(3,4) [OF h, of 128] by simp_all
  show "registers_in_range (fst (AND_A c m a))" "registers_in_range (fst (ORA c m a))"
    "registers_in_range (fst (EOR c m a))"
    using assms b by (simp_all add: AND_A_def ORA_def EOR_def Let_def registers_in_range_def)
  show "registers_in_range (fst (LSR_A c m a))"
    using assms h by (simp add: LSR_A_def Let_def registers_in_range_def drop_bit_eq_div)
  show "registers_in_range (fst (ROR_A c m a))"
    using assms h r by (simp add: ROR_A_def Let_def registers_in_range_def drop_bit_eq_div)
qed

lemma stack_effects_in_range:
  assumes "registers_in_range c"
  shows "registers_in_range (fst (PHA c m a))" "registers_in_range (fst (PHP c m a))"
    "registers_in_range (fst (PLA c m a))" "registers_in_range (fst (PLP c m a))"
    "registers_in_range (fst (RTS c m a))" "registers_in_range (fst (RTI c m a))"
    "registers_in_range (fst (BRK c m a))"
proof -
  show "registers_in_range (fst (PHA c m a))" "registers_in_range (fst (PHP c m a))"
    using assms by (simp_all add: PHA_def PHP_def rir_pushByte)
  show "registers_in_range (fst (PLA c m a))" "registers_in_range (fst (PLP c m a))"
    using assms
    by (simp_all add: PLA_def PLP_def pullByte_def Let_def registers_in_range_def and_FF_mod
        mod_bounds mem_read_bounds)
  show "registers_in_range (fst (RTS c m a))"
    using assms
    by (simp add: RTS_def pullWord_eq Let_def registers_in_range_def and_FFFF_mod mod_bounds)
  have wb: "256 * mem_read m x + mem_read m y \<le> 65535" for x y
    using word_bounds(2) [of m x y] by linarith
  show "registers_in_range (fst (RTI c m a))"
    using assms word_bounds(1) [of m] wb
    by (simp add: RTI_def pullByte_def pullWord_eq Let_def registers_in_range_def and_FF_mod
        mod_bounds)
  show "registers_in_range (fst (BRK c m a))"
    using rir_pushByte [OF rir_pushWord [OF rir_fetchByte [OF assms]]]
    by (simp add: BRK_def Let_def split_def)
qed

lemma genericBranch_in_range:
  "registers_in_range c \<Longrightarrow> registers_in_range (fst (genericBranch c m a cond))"
  by (simp add: genericBranch_def Let_def registers_in_range_def and_FFFF_mod mod_bounds
      split: option.splits)

lemma branch_effects_in_range:
  assumes "registers_in_range c"
  shows "registers_in_range (fst (BEQ c m a))" "registers_in_range (fst (BNE c m a))"
    "registers_in_range (fst (BCS c m a))" "registers_in_range (fst (BCC c m a))"
    "registers_in_range (fst (BMI c m a))" "registers_in_range (fst (BPL c m a))"
    "registers_in_range (fst (BVS c m a))" "registers_in_range (fst (BVC c m a))"
  using assms
  by (simp_all add: BEQ_def BNE_def BCS_def BCC_def BMI_def BPL_def BVS_def BVC_def
      genericBranch_in_range)

lemma jump_effects_in_range:
  assumes "registers_in_range c" "in_memory a"
  shows "registers_in_range (fst (JMP c m a))" "registers_in_range (fst (JSR c m a))"
proof -
  show "registers_in_range (fst (JMP c m a))"
    using assms by (simp add: JMP_def registers_in_range_def in_memory_def MEMORY_SIZE_def)
  show "registers_in_range (fst (JSR c m a))"
    using assms rir_pushWord [OF assms(1), of m "(PC c - 1) AND 0xFFFF"]
    by (simp add: JSR_def Let_def split_def registers_in_range_def in_memory_def MEMORY_SIZE_def)
qed

text \<open>
  The addressing modes keep the registers in range, and every mode but the relative one
  yields an index inside the memory.
\<close>

lemma addressing_in_range:
  "registers_in_range c \<Longrightarrow> registers_in_range (snd (addressingModeFunc am c m))"
  by (cases am)
    (simp_all add: IMM_def ZP_def ZPX_def ZPY_def ABS_def ABSX_def ABSY_def IND_def IZX_def
      IZY_def REL_def fetchByte_eq fetchWord_eq Let_def registers_in_range_def and_FFFF_mod
      mod_bounds)

lemma addressing_in_memory:
  assumes "registers_in_range c" "am \<noteq> AM_REL"
  shows "in_memory (address (fst (addressingModeFunc am c m)))"
proof -
  have w: "0 \<le> mem_read m x OR push_bit 8 (mem_read m y)"
          "mem_read m x OR push_bit 8 (mem_read m y) < 65536" for x y
    using word_bounds [of m y x] by (simp_all add: join_bytes' mem_read_bounds)
  have w': "0 \<le> push_bit 8 (mem_read m y) OR mem_read m x"
          "push_bit 8 (mem_read m y) OR mem_read m x < 65536" for x y
    using word_bounds [of m y x] by (simp_all add: join_bytes mem_read_bounds)
  have m16: "(x::int) mod 65536 < 65536" "(x::int) mod 256 < 65536" for x
    using mod_bounds [of x] by linarith+
  have b: "mem_read m x < 65536" for x
    using mem_read_bounds(2) [of m x] by linarith
  show ?thesis
    using assms w w' word_bounds [of m]
    by (cases am)
      (simp_all add: IMM_def ZP_def ZPX_def ZPY_def ABS_def ABSX_def ABSY_def IND_def IZX_def
        IZY_def fetchByte_eq fetchWord_eq Let_def registers_in_range_def and_FFFF_mod
        and_FF_mod mod_bounds m16 b mem_read_bounds in_memory_def MEMORY_SIZE_def)
qed

lemma resetCPU_in_range:
  assumes "la = None \<or> (\<exists>a. la = Some a \<and> 0 \<le> a \<and> a \<le> 65535)"
  shows "registers_in_range (resetCPU m la)"
proof -
  have "0 \<le> mem_read m x + 256 * mem_read m y" "mem_read m x + 256 * mem_read m y \<le> 65535" for x y
    using word_bounds [of m y x] by simp_all
  then show ?thesis
    using assms resetCPU_fields [of m la]
    by (auto simp add: registers_in_range_def)
qed

lemma table_effects_in_range:
  "\<forall>d \<in> set definitions. \<forall>c m a.
     registers_in_range c \<and> (in_memory a \<or> addressingMode d = Some AM_REL)
       \<longrightarrow> registers_in_range (fst (execute d c m a))"
  by (simp add: definitions_def define_entry_fields effects_in_range logic_effects_in_range
      stack_effects_in_range branch_effects_in_range jump_effects_in_range)

lemma fold_set_lookup:
  "fold (\<lambda>d s. s(opCode d \<mapsto> d)) xs s0 k = Some d \<Longrightarrow> d \<in> set xs \<or> s0 k = Some d"
proof (induction xs arbitrary: s0)
  case Nil
  then show ?case by simp
next
  case (Cons x xs)
  from Cons.prems have "fold (\<lambda>d s. s(opCode d \<mapsto> d)) xs (s0(opCode x \<mapsto> x)) k = Some d"
    by (simp only: fold_simps)
  from Cons.IH [OF this] show ?case
    by (auto split: if_splits)
qed

lemma getInstructionDefinition_in_definitions:
  "getInstructionDefinition oc = Some d \<Longrightarrow> d \<in> set definitions"
  using fold_set_lookup [of definitions Map.empty oc d]
  by (simp add: getInstructionDefinition_def instructionSet_def)

lemma step_in_range:
  assumes "registers_in_range c"
  shows "\<exists>c' m'. step c m = Inr (c', m') \<and> registers_in_range c'"
proof (cases "halted c")
  case True
  then show ?thesis using assms by (simp add: step_def)
next
  case False
  have pc: "mem_index m (PC c) = Some (mem_read m (PC c))"
    using assms
    by (simp add: mem_index_def mem_read_def in_memory_def MEMORY_SIZE_def registers_in_range_def)
  define c1 where "c1 = c\<lparr>PC := (PC c + 1) AND 0xFFFF\<rparr>"
  have c1: "registers_in_range c1"
    using assms by (simp add: c1_def registers_in_range_def and_FFFF_mod mod_bounds)
  show ?thesis
  proof (cases "getInstructionDefinition (mem_read m (PC c))")
    case None
    then show ?thesis
      using False pc assms by (simp add: step_def Let_def registers_in_range_def)
  next
    case (Some d)
    then have d: "d \<in> set definitions" by (rule getInstructionDefinition_in_definitions)
    have eff: "registers_in_range (fst (execute d c2 m a))"
      if "registers_in_range c2" "in_memory a \<or> addressingMode d = Some AM_REL" for c2 a
      using table_effects_in_range d that by blast
    show ?thesis
    proof (cases "addressingMode d")
      case None
      have "registers_in_range (fst (execute d c1 m 0))"
        using eff [OF c1, of 0] by (simp add: in_memory_def MEMORY_SIZE_def)
      then show ?thesis
        using False pc Some None
        by (simp add: step_def Let_def split_def c1_def)
    next
      case am: (Some am)
      define r where "r = addressingModeFunc am c1 m"
      have c2: "registers_in_range (snd r)"
        using c1 by (simp add: r_def addressing_in_range)
      have "in_memory (address (fst r)) \<or> addressingMode d = Some AM_REL"
        using addressing_in_memory [OF c1, of am m] am by (cases "am = AM_REL") (simp_all add: r_def)
      then have "registers_in_range (fst (execute d (snd r) m (address (fst r))))"
        using eff [OF c2] by simp
      then show ?thesis
        using False pc Some am
        by (simp add: step_def Let_def split_def c1_def r_def)
    qed
  qed
qed

text \<open>
  Claim C6. From a processor state whose registers A, X, Y and SP lie in \<open>0 .. 255\<close> and
  whose program counter lies in \<open>0 .. 65535\<close>, any number of steps on any memory returns
  a processor state, never an error, and the registers of that state lie in the same
  ranges: wrap-around of addresses, registers and the stack pointer is masked, not
  reported. A reset to a missing or in-range load address gives such a state
  (\<open>resetCPU_in_range\<close>).
\<close>

theorem registers_stay_in_range:
  assumes "registers_in_range c"
  shows "\<exists>c' m'. steps n c m = Inr (c', m') \<and> registers_in_range c'"
  using assms
proof (induction n arbitrary: c m)
  case 0
  then show ?case by simp
next
  case (Suc n)
  from step_in_range [OF Suc.prems, of m]
  obtain c1 m1 where s: "step c m = Inr (c1, m1)" and r: "registers_in_range c1" by blast
  from Suc.IH [OF r, of m1] show ?case by (simp add: s)
qed

lemma getInstructionDefinition_E8:
  "getInstructionDefinition 0xE8 = Some (define_entry 0xE8 ''INX'' None INX 1 2 False False)"
  by (simp add: getInstructionDefinition_def instructionSet_def definitions_def
      define_entry_fields)

lemma getInstructionDefinition_48:
  "getInstructionDefinition 0x48 = Some (define_entry 0x48 ''PHA'' None PHA 1 3 False False)"
  by (simp add: getInstructionDefinition_def instructionSet_def definitions_def
      define_entry_fields)

lemma steps_2:
  "steps 2 c m =
     (case step c m of Inl e \<Rightarrow> Inl e | Inr (c', m') \<Rightarrow> step c' m')"
proof -
  have "steps (Suc (Suc 0)) c m =
     (case step c m of Inl e \<Rightarrow> Inl e | Inr (c', m') \<Rightarrow> step c' m')"
    by (simp split: sum.splits prod.splits)
  then show ?thesis by (simp only: numeral_2_eq_2)
qed

theorem registers_stay_in_range_witness:
  "registers_in_range
     \<lparr>A = 0, X = 0xFF, Y = 0, PC = 0xFFFF, SP = 0, P = 0x24, cycles = 0, halted = False\<rparr>
   \<and> steps 2 \<lparr>A = 0, X = 0xFF, Y = 0, PC = 0xFFFF, SP = 0, P = 0x24, cycles = 0, halted = False\<rparr>
        ((\<lambda>_. 7)(0xFFFF := 0xE8, 0 := 0x48))
     = Inr (\<lparr>A = 0, X = 0, Y = 0, PC = 1, SP = 0xFF, P = 0x26, cycles = 5, halted = False\<rparr>,
            (\<lambda>_. 7)(0xFFFF := 0xE8, 0 := 0x48, 0x100 := 0))
   \<and> registers_in_range
     \<lparr>A = 0, X = 0, Y = 0, PC = 1, SP = 0xFF, P = 0x26, cycles = 5, halted = False\<rparr>"
  using registers_stay_in_range [of
      "\<lparr>A = 0, X = 0xFF, Y = 0, PC = 0xFFFF, SP = 0, P = 0x24, cycles = 0, halted = False\<rparr>"
      2 "(\<lambda>_. 7)(0xFFFF := 0xE8, 0 := 0x48)"]
  by (simp add: steps_2 step_def getInstructionDefinition_E8 getInstructionDefinition_48
      define_entry_fields INX_def PHA_def pushByte_def setZN_def mem_index_def mem_read_def
      mem_write_def in_memory_def MEMORY_SIZE_def STACK_BASE_def registers_in_range_def
      Flag_defs)
end
